theory Spec2Isabelle
  imports Main
begin

section \<open>The platform: values, errors, the network\<close>

text \<open>
  The external-data access layer of the application is two TypeScript modules:
  \<^verbatim>\<open>src/services/apiClient.ts\<close> (the transport client, class \<^verbatim>\<open>ApiClient\<close> with
  \<^verbatim>\<open>get\<close> and \<^verbatim>\<open>post\<close>) and \<^verbatim>\<open>src/services/rssService.ts\<close> (the case
  repository: \<^verbatim>\<open>searchCases\<close>, \<^verbatim>\<open>fetchCaseById\<close>, \<^verbatim>\<open>fetchCaseComments\<close>).
  The repository also keeps an earlier client that throws and earlier repository
  functions built on it; what is embedded here is the client that returns an
  \<^verbatim>\<open>ApiResponse\<close> and the repository functions that call it.
  Both run on the browser platform, which is not part of the repository; this section
  fixes how the platform is represented.

  A JavaScript string is a \<^typ>\<open>string\<close>: one \<^typ>\<open>char\<close> per code unit, for code units
  below 256 (every string literal of the two modules is in that range; the Icelandic
  letters are written \<open>CHR 0x..\<close>).

  A value produced by \<^verbatim>\<open>JSON.parse\<close> is a \<^verbatim>\<open>json\<close> tree. Numbers are the integers
  (the identifiers of the upstream schema); fractions and the rounding of doubles are
  not represented. The members of an object are kept in the order of the text, and a
  name that occurs twice denotes its last value, as \<^verbatim>\<open>JSON.parse\<close> has it. The
  JavaScript value \<^verbatim>\<open>undefined\<close> is \<^term>\<open>None\<close> of \<^typ>\<open>'a option\<close>.
\<close>

datatype json =
    JNull
  | JBool bool
  | JNumber int
  | JString string
  | JArray "json list"
  | JObject "(string \<times> json) list"

text \<open>
  A thrown value: JavaScript can throw anything. The first four are error objects with
  their message (\<^verbatim>\<open>new Error(m)\<close> of the repository is \<open>Error m\<close>). \<open>ThrownNullish\<close> is
  \<^verbatim>\<open>null\<close> or \<^verbatim>\<open>undefined\<close>. \<open>ThrownOther v\<close> is any other value whose \<^verbatim>\<open>message\<close>
  property reads as \<open>v\<close> (\<^verbatim>\<open>undefined\<close> for a thrown string or number).
  \<open>ThrownUnreadable t\<close> is an object whose \<^verbatim>\<open>message\<close> getter throws \<open>t\<close>.
\<close>

datatype thrown =
    Error string
  | TypeError string
  | SyntaxError string
  | DOMException string
  | ThrownNullish
  | ThrownOther "json option"
  | ThrownUnreadable thrown

text \<open>
  \<^verbatim>\<open>error.message\<close>, as the \<^verbatim>\<open>catch\<close> blocks of the client read it: the message of
  an error object; a \<open>TypeError\<close> of the engine's on \<^verbatim>\<open>null\<close> and \<^verbatim>\<open>undefined\<close> (the
  text is V8's).
\<close>

definition null_message_read :: string where
  "null_message_read =
     ''Cannot read properties of null (reading '' @ [CHR 0x27] @ ''message'' @ [CHR 0x27]
       @ '')''"

fun read_message :: "thrown \<Rightarrow> thrown + json option" where
  "read_message (Error m) = Inr (Some (JString m))"
| "read_message (TypeError m) = Inr (Some (JString m))"
| "read_message (SyntaxError m) = Inr (Some (JString m))"
| "read_message (DOMException m) = Inr (Some (JString m))"
| "read_message ThrownNullish = Inl (TypeError null_message_read)"
| "read_message (ThrownOther v) = Inr v"
| "read_message (ThrownUnreadable t) = Inl t"

text \<open>
  What the Fetch API rejects with is always an error object: a \<open>TypeError\<close> when the
  network fails or a body cannot be read, a \<open>DOMException\<close> when the request is
  aborted, a \<open>SyntaxError\<close> when a body is not JSON.
\<close>

datatype rejection = NetworkFailure string | Aborted string | InvalidJson string

fun thrown_by :: "rejection \<Rightarrow> thrown" where
  "thrown_by (NetworkFailure m) = TypeError m"
| "thrown_by (Aborted m) = DOMException m"
| "thrown_by (InvalidJson m) = SyntaxError m"

fun message_of :: "rejection \<Rightarrow> string" where
  "message_of (NetworkFailure m) = m"
| "message_of (Aborted m) = m"
| "message_of (InvalidJson m) = m"

text \<open>
  A \<^verbatim>\<open>Response\<close> of the Fetch API: its status, what \<^verbatim>\<open>response.text()\<close> settles to
  and what \<^verbatim>\<open>response.json()\<close> settles to (\<open>Inl\<close> is a rejection). The two readers are
  independent fields, so every pairing of a body text with a parse result is covered.
  \<^verbatim>\<open>response.ok\<close> is, by the Fetch standard, the status being in the range 200 to 299.
\<close>

record response =
  response_status :: nat
  text_result :: "rejection + string"
  json_result :: "rejection + json"

definition ok :: "response \<Rightarrow> bool" where
  "ok r = (200 \<le> response_status r \<and> response_status r \<le> 299)"

text \<open>
  A request as handed to \<^verbatim>\<open>fetch\<close>. The body is the tree whose serialisation
  \<^verbatim>\<open>JSON.stringify\<close> sends.
\<close>

record request =
  http_method :: string
  url :: string
  headers :: "(string \<times> string) list"
  request_body :: "json option"

datatype fetch_result = Rejects rejection | Resolves response

text \<open>
  The network decides the result of a \<^verbatim>\<open>fetch\<close> from the requests issued before it and
  the request itself; any behaviour of relay and upstream during one run is such a
  function.
\<close>

type_synonym network = "request list \<Rightarrow> request \<Rightarrow> fetch_result"

datatype body_read = ReadText | ReadJson

datatype console_arg = LogString string | LogError thrown

text \<open>
  The observable effects of a run: the requests issued, the body readers called on the
  responses, and the lines written with \<^verbatim>\<open>console.error\<close>, each in order.
\<close>

record world =
  requests :: "request list"
  reads :: "body_read list"
  console :: "console_arg list list"

text \<open>A computation either throws or returns, and leaves a world behind.\<close>

type_synonym 'a comp = "world \<Rightarrow> (thrown + 'a) \<times> world"

definition fetch :: "network \<Rightarrow> request \<Rightarrow> response comp" where
  "fetch net req w =
     (let w' = w\<lparr>requests := requests w @ [req]\<rparr>
      in case net (requests w) req of
           Rejects e \<Rightarrow> (Inl (thrown_by e), w')
         | Resolves r \<Rightarrow> (Inr r, w'))"

definition settle :: "rejection + 'a \<Rightarrow> thrown + 'a" where
  "settle p = (case p of Inl e \<Rightarrow> Inl (thrown_by e) | Inr v \<Rightarrow> Inr v)"

definition response_text :: "response \<Rightarrow> string comp" where
  "response_text r w = (settle (text_result r), w\<lparr>reads := reads w @ [ReadText]\<rparr>)"

definition response_json :: "response \<Rightarrow> json comp" where
  "response_json r w = (settle (json_result r), w\<lparr>reads := reads w @ [ReadJson]\<rparr>)"

definition console_error :: "console_arg list \<Rightarrow> world \<Rightarrow> world" where
  "console_error args w = w\<lparr>console := console w @ [args]\<rparr>"

text \<open>
  \<^verbatim>\<open>try { body } catch (error) { handler }\<close>: the handler runs in the world the body
  left when it threw.
\<close>

definition try_catch :: "'a comp \<Rightarrow> (thrown \<Rightarrow> 'a comp) \<Rightarrow> 'a comp" where
  "try_catch block handler w =
     (case block w of
        (Inl e, w') \<Rightarrow> handler e w'
      | (Inr v, w') \<Rightarrow> (Inr v, w'))"

text \<open>
  The argument of \<^verbatim>\<open>post\<close> has type \<^verbatim>\<open>any\<close>: either a tree, which
  \<^verbatim>\<open>JSON.stringify\<close> serialises, or a value on which \<^verbatim>\<open>JSON.stringify\<close> throws: a
  \<open>TypeError\<close> of its own (a cyclic structure, a BigInt), or whatever a \<^verbatim>\<open>toJSON\<close>
  method or a getter of the value throws, which can be any value.
\<close>

datatype js_any = Tree json | Unserialisable thrown

fun JSON_stringify :: "js_any \<Rightarrow> thrown + json" where
  "JSON_stringify (Tree j) = Inr j"
| "JSON_stringify (Unserialisable e) = Inl e"

subsection \<open>Decimal numerals and the query string\<close>

definition digit_char :: "nat \<Rightarrow> char" where
  "digit_char n = ''0123456789ABCDEF'' ! (n mod 16)"

fun show_nat :: "nat \<Rightarrow> string" where
  "show_nat n =
     (if n < 10 then [digit_char n] else show_nat (n div 10) @ [digit_char (n mod 10)])"

definition show_int :: "int \<Rightarrow> string" where
  "show_int i = (if i < 0 then ''-'' @ show_nat (nat (- i)) else show_nat (nat i))"

text \<open>
  A value of \<^verbatim>\<open>RequestParams\<close> is \<^verbatim>\<open>string | number\<close>. A number is given by the text
  that \<^verbatim>\<open>String\<close> makes of it (its shortest decimal that reads back, in exponent
  notation from \<open>10^21\<close>), which is all that \<^verbatim>\<open>get\<close> takes from it.
\<close>

datatype param_value = PString string | PNumber string

fun String :: "param_value \<Rightarrow> string" where
  "String (PString s) = s"
| "String (PNumber s) = s"

text \<open>
  \<^verbatim>\<open>URLSearchParams.toString()\<close>: the \<^verbatim>\<open>application/x-www-form-urlencoded\<close> serialiser.
  Letters, digits and \<^verbatim>\<open>* - . _\<close> stay, a space becomes \<^verbatim>\<open>+\<close>, every other code unit
  is the percent-encoding of its UTF-8 bytes.
\<close>

definition utf8_bytes :: "char \<Rightarrow> nat list" where
  "utf8_bytes c =
     (let n = (of_char c :: nat)
      in if n < 128 then [n] else [192 + n div 64, 128 + n mod 64])"

definition percent_byte :: "nat \<Rightarrow> string" where
  "percent_byte b = [CHR ''%'', digit_char (b div 16), digit_char (b mod 16)]"

definition form_unreserved :: "char \<Rightarrow> bool" where
  "form_unreserved c =
     (c \<in> set ''ABCDEFGHIJKLMNOPQRSTUVWXYZabcdefghijklmnopqrstuvwxyz0123456789*-._'')"

definition form_encode_char :: "char \<Rightarrow> string" where
  "form_encode_char c =
     (if form_unreserved c then [c]
      else if c = CHR '' '' then ''+''
      else concat (map percent_byte (utf8_bytes c)))"

definition form_encode :: "string \<Rightarrow> string" where
  "form_encode s = concat (map form_encode_char s)"

fun join_with :: "string \<Rightarrow> string list \<Rightarrow> string" where
  "join_with sep [] = []"
| "join_with sep [x] = x"
| "join_with sep (x # y # ys) = x @ sep @ join_with sep (y # ys)"

definition URLSearchParams_toString :: "(string \<times> string) list \<Rightarrow> string" where
  "URLSearchParams_toString query =
     join_with ''&'' (map (\<lambda>(k, v). form_encode k @ ''='' @ form_encode v) query)"

section \<open>The transport client (apiClient.ts)\<close>

text \<open>
  \<^verbatim>\<open>ApiResponse<T>\<close> of \<^verbatim>\<open>types.ts\<close>: \<open>data\<close> is \<^verbatim>\<open>T | null\<close> (here a tree,
  \<^term>\<open>JNull\<close> for \<^verbatim>\<open>null\<close>), \<open>error\<close> is an optional field. The declared type of
  \<open>body\<close> is \<^verbatim>\<open>string\<close>; at run time it holds the body text of the response or
  whatever \<^verbatim>\<open>error.message\<close> read, which is a value or \<^verbatim>\<open>undefined\<close>.
\<close>

record api_error =
  message :: string
  body :: "json option"

record ApiResponse =
  success :: bool
  data :: json
  status :: nat
  error :: "api_error option"

record ApiClient =
  proxyUrl :: string
  baseUrl :: string

definition CORS_PROXY_URL :: string where
  "CORS_PROXY_URL = ''https://corsproxy.io/?''"

definition API_BASE_URL :: string where
  "API_BASE_URL = ''https://samradapi.island.is''"

definition apiClient :: ApiClient where
  "apiClient = \<lparr>proxyUrl = CORS_PROXY_URL, baseUrl = API_BASE_URL\<rparr>"

definition http_error_message :: "nat \<Rightarrow> string" where
  "http_error_message st =
     ''Villa '' @ [CHR 0xED] @ '' netsamskiptum vi'' @ [CHR 0xF0] @ '' vef'' @ [CHR 0xFE]
       @ ''j'' @ [CHR 0xF3] @ ''nustu (HTTP '' @ show_nat st @ '').''"

definition network_error_message :: string where
  "network_error_message =
     ''Ekki t'' @ [CHR 0xF3] @ ''kst a'' @ [CHR 0xF0] @ '' n'' @ [CHR 0xE1]
       @ '' sambandi vi'' @ [CHR 0xF0] @ '' vef'' @ [CHR 0xFE] @ ''j'' @ [CHR 0xF3]
       @ ''nustu. Athuga'' @ [CHR 0xF0] @ ''u netenginguna '' @ [CHR 0xFE] @ [CHR 0xED]
       @ ''na.''"

text \<open>
  What both methods do with a settled \<^verbatim>\<open>fetch\<close>, inside their \<^verbatim>\<open>try\<close> block: a
  status that is not ok gives the failure with that status and the body read as text,
  an ok status gives the success with the body read as JSON. \<open>what\<close> is the
  \<^verbatim>\<open>endpoint: ...\<close> or \<^verbatim>\<open>url: ...\<close> part of the console line.
\<close>

definition on_response :: "string \<Rightarrow> response \<Rightarrow> ApiResponse comp" where
  "on_response what r w =
     (if \<not> ok r then
        (case response_text r w of
           (Inl e, w') \<Rightarrow> (Inl e, w')
         | (Inr errorBody, w') \<Rightarrow>
             (let errorMessage = http_error_message (response_status r)
              in (Inr \<lparr>success = False, data = JNull, status = response_status r,
                        error = Some \<lparr>message = errorMessage,
                                      body = Some (JString errorBody)\<rparr>\<rparr>,
                  console_error
                    [LogString (''HTTP error! status: '' @ show_nat (response_status r)
                       @ '', '' @ what @ '', body: '' @ errorBody)] w')))
      else
        (case response_json r w of
           (Inl e, w') \<Rightarrow> (Inl e, w')
         | (Inr d, w') \<Rightarrow>
             (Inr \<lparr>success = True, data = d, status = response_status r, error = None\<rparr>,
              w')))"

text \<open>
  The \<^verbatim>\<open>catch (error: any)\<close> block of both methods: it writes the console line, then
  builds the outcome, reading \<^verbatim>\<open>error.message\<close> for the diagnostic body. When that
  read throws, the block throws, and the method with it.
\<close>

definition on_error :: "string \<Rightarrow> thrown \<Rightarrow> ApiResponse comp" where
  "on_error what e w =
     (let w' = console_error
            [LogString (''Network or fetch error for '' @ what @ '':''), LogError e] w
      in case read_message e of
           Inl t \<Rightarrow> (Inl t, w')
         | Inr m \<Rightarrow>
             (Inr \<lparr>success = False, data = JNull, status = 0,
                   error = Some \<lparr>message = network_error_message, body = m\<rparr>\<rparr>,
              w'))"

definition get_request :: "string \<Rightarrow> request" where
  "get_request finalApiUrl =
     \<lparr>http_method = ''GET'', url = finalApiUrl,
      headers = [(''Accept'', ''application/json''),
                 (''Cache-Control'', ''no-cache, no-store, must-revalidate''),
                 (''Pragma'', ''no-cache''),
                 (''Expires'', ''0'')],
      request_body = None\<rparr>"

definition get_try :: "network \<Rightarrow> string \<Rightarrow> string \<Rightarrow> ApiResponse comp" where
  "get_try net endpoint finalApiUrl w =
     (case fetch net (get_request finalApiUrl) w of
        (Inl e, w') \<Rightarrow> (Inl e, w')
      | (Inr r, w') \<Rightarrow> on_response (''endpoint: '' @ endpoint) r w')"

text \<open>
  The URL \<^verbatim>\<open>get\<close> builds. \<open>params\<close> lists the own enumerable properties of the
  parameter object in the order \<^verbatim>\<open>for ... in\<close> visits them.
\<close>

definition get_url :: "ApiClient \<Rightarrow> string \<Rightarrow> (string \<times> param_value) list \<Rightarrow> string" where
  "get_url this endpoint params =
     (let query = map (\<lambda>(key, v). (key, String v)) params;
          queryString = URLSearchParams_toString query;
          targetUrl = baseUrl this @ endpoint
            @ (if queryString \<noteq> [] then ''?'' @ queryString else [])
      in proxyUrl this @ targetUrl)"

definition get :: "network \<Rightarrow> ApiClient \<Rightarrow> string \<Rightarrow> (string \<times> param_value) list
    \<Rightarrow> ApiResponse comp" where
  "get net this endpoint params w =
     (let finalApiUrl = get_url this endpoint params
      in try_catch (get_try net endpoint finalApiUrl)
           (on_error (''endpoint '' @ endpoint)) w)"

definition post_request :: "string \<Rightarrow> json \<Rightarrow> request" where
  "post_request finalApiUrl j =
     \<lparr>http_method = ''POST'', url = finalApiUrl,
      headers = [(''Content-Type'', ''application/json''),
                 (''Accept'', ''application/json'')],
      request_body = Some j\<rparr>"

text \<open>
  \<^verbatim>\<open>post(url, body)\<close>; the two parameters are \<open>target\<close> and \<open>b\<close> here, \<open>url\<close> and
  \<open>body\<close> being fields of the records above. \<^verbatim>\<open>JSON.stringify(body)\<close> is evaluated
  inside the \<^verbatim>\<open>try\<close> block, before the call of \<^verbatim>\<open>fetch\<close>.
\<close>

definition post_try :: "network \<Rightarrow> string \<Rightarrow> string \<Rightarrow> js_any \<Rightarrow> ApiResponse comp" where
  "post_try net target finalApiUrl b w =
     (case JSON_stringify b of
        Inl e \<Rightarrow> (Inl e, w)
      | Inr j \<Rightarrow>
          (case fetch net (post_request finalApiUrl j) w of
             (Inl e, w') \<Rightarrow> (Inl e, w')
           | (Inr r, w') \<Rightarrow> on_response (''url: '' @ target) r w'))"

definition post :: "network \<Rightarrow> ApiClient \<Rightarrow> string \<Rightarrow> js_any \<Rightarrow> ApiResponse comp" where
  "post net this target b w =
     (let finalApiUrl = proxyUrl this @ target
      in try_catch (post_try net target finalApiUrl b) (on_error (''url '' @ target)) w)"

section \<open>The case repository (rssService.ts)\<close>

subsection \<open>JavaScript operators on parsed values\<close>

text \<open>
  \<^verbatim>\<open>v.k\<close> on a value that is neither \<^verbatim>\<open>null\<close> nor \<^verbatim>\<open>undefined\<close>, for a name \<open>k\<close>
  that no prototype defines (all names read by the repository are such): the last
  member of that name of an object, \<^verbatim>\<open>undefined\<close> on anything else.
\<close>

fun member :: "json \<Rightarrow> string \<Rightarrow> json option" where
  "member (JObject ms) k = map_of (rev ms) k"
| "member _ k = None"

text \<open>\<^verbatim>\<open>v?.k\<close>: \<^verbatim>\<open>undefined\<close> when \<open>v\<close> is \<^verbatim>\<open>null\<close> or \<^verbatim>\<open>undefined\<close>.\<close>

fun opt_member :: "json option \<Rightarrow> string \<Rightarrow> json option" where
  "opt_member None k = None"
| "opt_member (Some JNull) k = None"
| "opt_member (Some v) k = member v k"

text \<open>\<^verbatim>\<open>!!v\<close>.\<close>

fun truthy :: "json option \<Rightarrow> bool" where
  "truthy None = False"
| "truthy (Some JNull) = False"
| "truthy (Some (JBool b)) = b"
| "truthy (Some (JNumber n)) = (n \<noteq> 0)"
| "truthy (Some (JString s)) = (s \<noteq> [])"
| "truthy (Some (JArray xs)) = True"
| "truthy (Some (JObject ms)) = True"

text \<open>\<^verbatim>\<open>a || b\<close> and \<^verbatim>\<open>a ?? b\<close>, for a right operand that is a value.\<close>

definition or_else :: "json option \<Rightarrow> json \<Rightarrow> json" where
  "or_else a b = (case a of None \<Rightarrow> b | Some v \<Rightarrow> if truthy a then v else b)"

fun nullish_else :: "json option \<Rightarrow> json \<Rightarrow> json" where
  "nullish_else None b = b"
| "nullish_else (Some JNull) b = b"
| "nullish_else (Some v) b = v"

subsection \<open>\<^verbatim>\<open>Number.parseInt(s, 10)\<close>\<close>

text \<open>
  The result of \<^verbatim>\<open>parseInt\<close> is a Number, a double: an integer here, or an infinity
  (\<^verbatim>\<open>NaN\<close> is \<^term>\<open>None\<close> of the option type below; \<open>-0\<close> is \<open>Finite 0\<close>).
  \<open>number_of_int\<close> is the double nearest to an integer: integers of magnitude below
  \<open>2^53\<close> are exact, larger ones are rounded to 53 significant bits, ties to the even
  significand, and what rounds to \<open>2^1024\<close> or beyond is an infinity.
\<close>

datatype number = Finite int | PosInfinity | NegInfinity

fun bitlen :: "nat \<Rightarrow> nat" where
  "bitlen n = (if n = 0 then 0 else Suc (bitlen (n div 2)))"

definition round_nat :: "nat \<Rightarrow> nat" where
  "round_nat m =
     (if m < 2 ^ 53 then m
      else let k = bitlen m - 53;
               q = m div 2 ^ k;
               r = m mod 2 ^ k;
               half = 2 ^ (k - 1);
               q' = (if half < r \<or> (r = half \<and> odd q) then q + 1 else q)
           in q' * 2 ^ k)"

definition number_of_int :: "int \<Rightarrow> number" where
  "number_of_int i =
     (let m = round_nat (nat \<bar>i\<bar>)
      in if 2 ^ 1024 \<le> m then (if i < 0 then NegInfinity else PosInfinity)
         else Finite (if i < 0 then - int m else int m))"

text \<open>
  \<^verbatim>\<open>Number.parseInt(s, 10)\<close>: leading white space is skipped, one sign is taken, then
  the longest run of decimal digits; no digit gives \<^verbatim>\<open>NaN\<close>, otherwise the result is
  the Number of the signed integer that the digits denote. (Past the 20th significant
  digit ECMAScript lets an engine read the digits as zeros; the value here is the
  correctly rounded one, which is what V8 computes.) The white space of code units
  below 256 is TAB, LF, VT, FF, CR, SP and NBSP.
\<close>

definition isWhiteSpace :: "char \<Rightarrow> bool" where
  "isWhiteSpace c =
     (c \<in> set [CHR 0x09, CHR 0x0A, CHR 0x0B, CHR 0x0C, CHR 0x0D, CHR 0x20, CHR 0xA0])"

definition isDigit :: "char \<Rightarrow> bool" where
  "isDigit c = (c \<in> set ''0123456789'')"

definition digit_value :: "char \<Rightarrow> nat" where
  "digit_value c = of_char c - 48"

definition digits_value :: "string \<Rightarrow> nat" where
  "digits_value Z = foldl (\<lambda>acc c. 10 * acc + digit_value c) 0 Z"

definition parseInt :: "string \<Rightarrow> number option" where
  "parseInt inputString =
     (let S = dropWhile isWhiteSpace inputString;
          sign = (if S \<noteq> [] \<and> hd S = CHR ''-'' then - 1 else 1 :: int);
          S' = (if S \<noteq> [] \<and> (hd S = CHR ''+'' \<or> hd S = CHR ''-'') then tl S else S);
          Z = takeWhile isDigit S'
      in if Z = [] then None else Some (number_of_int (sign * int (digits_value Z))))"

subsection \<open>The list and single-case operations\<close>

definition case_list_error :: string where
  "case_list_error = ''Gat ekki s'' @ [CHR 0xF3] @ ''tt m'' @ [CHR 0xE1] @ ''lalista.''"

text \<open>
  \<^verbatim>\<open>searchCases()\<close> returns \<^verbatim>\<open>res.data?.cases || []\<close>: whatever truthy value the
  payload has under \<^verbatim>\<open>cases\<close>, else the empty array.
\<close>

definition searchCases :: "network \<Rightarrow> json comp" where
  "searchCases net w =
     (let params = [(''pageSize'', PString ''1500''), (''orderBy'', PString ''LastUpdated'')]
      in case get net apiClient ''/api/cases'' params w of
           (Inl e, w') \<Rightarrow> (Inl e, w')
         | (Inr res, w') \<Rightarrow>
             if \<not> success res then (Inl (Error case_list_error), w')
             else (Inr (or_else (opt_member (Some (data res)) ''cases'') (JArray [])), w'))"

definition fetchCaseById :: "network \<Rightarrow> string \<Rightarrow> json comp" where
  "fetchCaseById net ident w =
     (if ident = [] then (Inl (Error ''A valid case ID is required.''), w)
      else case get net apiClient (''/api/cases/'' @ ident) [] w of
             (Inl e, w') \<Rightarrow> (Inl e, w')
           | (Inr res, w') \<Rightarrow>
               if \<not> success res then
                 (Inl (Error (''Gat ekki s'' @ [CHR 0xF3] @ ''tt m'' @ [CHR 0xE1] @ ''l me''
                    @ [CHR 0xF0] @ '' ID: '' @ ident @ ''.'')), w')
               else if \<not> truthy (Some (data res)) then
                 (Inl (Error (''Ekkert m'' @ [CHR 0xE1] @ ''l fannst me'' @ [CHR 0xF0]
                    @ '' ID: '' @ ident @ ''.'')), w')
               else (Inr (data res), w'))"

subsection \<open>The comments of a case\<close>

definition template_lines :: "string list \<Rightarrow> string" where
  "template_lines ls = concat (map (\<lambda>l. l @ [CHR 0x0A]) ls)"

definition GET_CASE_META :: string where
  "GET_CASE_META = template_lines
     [[],
      ''query CaseMeta($input: ConsultationPortalCaseInput!) {'',
      ''  consultationPortalCaseById(input: $input) {'',
      ''    id'',
      ''  }'',
      ''}'']"

definition GET_CASE_ADVICES_MINIMAL :: string where
  "GET_CASE_ADVICES_MINIMAL = template_lines
     [[],
      ''query CaseAdvices($input: ConsultationPortalCaseInput!) {'',
      ''  consultationPortalAdviceByCaseId(input: $input) {'',
      ''    id'',
      ''    participantName'',
      ''    content'',
      ''    created'',
      ''  }'',
      ''}'']"

definition graphql_body :: "string \<Rightarrow> json \<Rightarrow> string \<Rightarrow> json" where
  "graphql_body query variables operationName =
     JObject [(''query'', JString query), (''variables'', variables),
              (''operationName'', JString operationName)]"

definition postGraphQL :: "network \<Rightarrow> string \<Rightarrow> json \<Rightarrow> string \<Rightarrow> ApiResponse comp" where
  "postGraphQL net query variables operationName =
     (let endpoint = ''https://island.is/api/graphql''
      in post net apiClient endpoint (Tree (graphql_body query variables operationName)))"

text \<open>The request that \<^verbatim>\<open>postGraphQL\<close> hands to \<^verbatim>\<open>fetch\<close>.\<close>

definition graphql_request :: "string \<Rightarrow> json \<Rightarrow> string \<Rightarrow> request" where
  "graphql_request query variables operationName =
     post_request (proxyUrl apiClient @ ''https://island.is/api/graphql'')
       (graphql_body query variables operationName)"

text \<open>
  \<^verbatim>\<open>CaseComment\<close> of \<^verbatim>\<open>types.ts\<close>. The declared field types are erased at run time:
  \<open>id\<close> and \<open>created\<close> are whatever the upstream record holds (\<^verbatim>\<open>undefined\<close> when it
  holds nothing), \<open>contact\<close> and \<open>comment\<close> are values.
\<close>

record attachment =
  attachment_id :: string
  attachment_name :: string
  fileType :: string

record CaseComment =
  id' :: "json option"
  caseId :: number
  contact :: json
  comment :: json
  created :: "json option"
  attachments :: "attachment list"

definition invalid_id_error :: string where
  "invalid_id_error = ''A valid numeric case ID is required.''"

definition comments_error :: string where
  "comments_error =
     ''Gat ekki s'' @ [CHR 0xF3] @ ''tt umsagnir fyrir m'' @ [CHR 0xE1] @ ''l.''"

definition no_comment_placeholder :: string where
  "no_comment_placeholder = ''Engin athugasemd fylgdi.''"

text \<open>
  The callback of \<^verbatim>\<open>items.map\<close>. Reading \<^verbatim>\<open>a.id\<close> of an element that is \<^verbatim>\<open>null\<close>
  throws a \<open>TypeError\<close> (the message is the engine's; this is V8's).
\<close>

definition null_read_message :: string where
  "null_read_message =
     ''Cannot read properties of null (reading '' @ [CHR 0x27] @ ''id'' @ [CHR 0x27] @ '')''"

definition comment_of :: "number \<Rightarrow> json \<Rightarrow> CaseComment" where
  "comment_of cid a =
     \<lparr>id' = member a ''id'',
      caseId = cid,
      contact = nullish_else (member a ''participantName'') (JString []),
      comment = or_else (member a ''content'') (JString no_comment_placeholder),
      created = member a ''created'',
      attachments = []\<rparr>"

definition to_comment :: "number \<Rightarrow> json \<Rightarrow> thrown + CaseComment" where
  "to_comment cid a =
     (if a = JNull then Inl (TypeError null_read_message) else Inr (comment_of cid a))"

fun map_items :: "number \<Rightarrow> json list \<Rightarrow> thrown + CaseComment list" where
  "map_items cid [] = Inr []"
| "map_items cid (a # as) =
     (case to_comment cid a of
        Inl e \<Rightarrow> Inl e
      | Inr c \<Rightarrow> (case map_items cid as of Inl e \<Rightarrow> Inl e | Inr cs \<Rightarrow> Inr (c # cs)))"

text \<open>
  \<^verbatim>\<open>{ input: { caseId } }\<close>, as \<^verbatim>\<open>JSON.stringify\<close> prints it: an infinity is printed
  as \<^verbatim>\<open>null\<close>.
\<close>

fun number_json :: "number \<Rightarrow> json" where
  "number_json (Finite i) = JNumber i"
| "number_json PosInfinity = JNull"
| "number_json NegInfinity = JNull"

definition case_input :: "number \<Rightarrow> json" where
  "case_input cid = JObject [(''input'', JObject [(''caseId'', number_json cid)])]"

definition fetchCaseComments :: "network \<Rightarrow> string \<Rightarrow> CaseComment list comp" where
  "fetchCaseComments net ident w =
     (case parseInt ident of
        None \<Rightarrow> (Inl (Error invalid_id_error), w)
      | Some cid \<Rightarrow>
          (case postGraphQL net GET_CASE_META (case_input cid) ''CaseMeta'' w of
             (Inl e, w1) \<Rightarrow> (Inl e, w1)
           | (Inr meta, w1) \<Rightarrow>
               if \<not> success meta then (Inl (Error comments_error), w1)
               else if \<not> truthy (opt_member (opt_member (opt_member (Some (data meta))
                         ''data'') ''consultationPortalCaseById'') ''id'')
               then (Inr [], w1)
               else
                 (case postGraphQL net GET_CASE_ADVICES_MINIMAL (case_input cid)
                         ''CaseAdvices'' w1 of
                    (Inl e, w2) \<Rightarrow> (Inl e, w2)
                  | (Inr adv, w2) \<Rightarrow>
                      if \<not> success adv then (Inl (Error comments_error), w2)
                      else
                        (case nullish_else (opt_member (opt_member (Some (data adv))
                                ''data'') ''consultationPortalAdviceByCaseId'') (JArray []) of
                           JArray items \<Rightarrow>
                             if items = [] then (Inr [], w2) else (map_items cid items, w2)
                         | _ \<Rightarrow> (Inr [], w2)))))"

section \<open>Concrete responses and networks\<close>

text \<open>
  The text of a tree whose strings need no escaping and whose numbers are below
  \<open>10^21\<close> in magnitude, as \<^verbatim>\<open>JSON.stringify\<close> prints it; a response with a JSON body
  carries this text and parses back to the tree.
\<close>

definition quoted :: "string \<Rightarrow> string" where
  "quoted s = [CHR 0x22] @ s @ [CHR 0x22]"

fun json_text :: "json \<Rightarrow> string" where
  "json_text JNull = ''null''"
| "json_text (JBool b) = (if b then ''true'' else ''false'')"
| "json_text (JNumber n) = show_int n"
| "json_text (JString s) = quoted s"
| "json_text (JArray xs) = ''['' @ join_with '','' (map json_text xs) @ '']''"
| "json_text (JObject ms) =
     ''{'' @ join_with '','' (map (\<lambda>(k, v). quoted k @ '':'' @ json_text v) ms) @ ''}''"

definition json_response :: "nat \<Rightarrow> json \<Rightarrow> response" where
  "json_response st j =
     \<lparr>response_status = st, text_result = Inr (json_text j), json_result = Inr j\<rparr>"

text \<open>
  A response whose body is a text that does not start as JSON does:
  \<^verbatim>\<open>response.json()\<close> rejects (the message is the engine's; this is Firefox's).
\<close>

definition unexpected_character :: rejection where
  "unexpected_character =
     InvalidJson ''JSON.parse: unexpected character at line 1 column 1 of the JSON data''"

definition text_response :: "nat \<Rightarrow> string \<Rightarrow> response" where
  "text_response st t =
     \<lparr>response_status = st, text_result = Inr t, json_result = Inl unexpected_character\<rparr>"

text \<open>
  A network that answers the calls of a run in turn from a list, and fails to connect
  once the list is used up.
\<close>

definition failed_to_fetch :: rejection where
  "failed_to_fetch = NetworkFailure ''Failed to fetch''"

text \<open>A response whose body cannot be read: the connection breaks after the head.\<close>

definition body_stream_error :: rejection where
  "body_stream_error = NetworkFailure ''Error in body stream''"

definition unreadable_response :: "nat \<Rightarrow> response" where
  "unreadable_response st =
     \<lparr>response_status = st, text_result = Inl body_stream_error,
      json_result = Inl body_stream_error\<rparr>"

definition scripted :: "fetch_result list \<Rightarrow> network" where
  "scripted script issued req =
     (if length issued < length script then script ! length issued
      else Rejects failed_to_fetch)"

definition empty_world :: world where
  "empty_world = \<lparr>requests = [], reads = [], console = []\<rparr>"

definition errors_only :: json where
  "errors_only =
     JObject [(''errors'',
       JArray [JObject [(''message'', JString ''Case not found''),
                        (''extensions'', JObject [(''code'', JString ''NOT_FOUND'')])]])]"

definition case_absent :: json where
  "case_absent = JObject [(''data'', JObject [(''consultationPortalCaseById'', JNull)])]"

definition case_found :: json where
  "case_found =
     JObject [(''data'',
       JObject [(''consultationPortalCaseById'', JObject [(''id'', JNumber 42)])])]"

definition no_advices :: json where
  "no_advices = JObject [(''data'', JObject [(''consultationPortalAdviceByCaseId'', JArray [])])]"

definition advice_bare :: json where
  "advice_bare =
     JObject [(''id'', JNumber 1), (''content'', JString []),
              (''created'', JString ''2024-01-01'')]"

definition advice_full :: json where
  "advice_full =
     JObject [(''id'', JNumber 2), (''participantName'', JString ''Jon''),
              (''content'', JString ''Gott''), (''created'', JString ''2024-02-01'')]"

definition two_advices :: json where
  "two_advices =
     JObject [(''data'',
       JObject [(''consultationPortalAdviceByCaseId'', JArray [advice_bare, advice_full])])]"

definition cases_null :: json where
  "cases_null = JObject [(''cases'', JNull), (''total'', JNumber 0)]"

text \<open>The two failure outcomes of the transport client, named for the statements below.\<close>

abbreviation network_failure :: "string \<Rightarrow> ApiResponse" where
  "network_failure m \<equiv>
     \<lparr>success = False, data = JNull, status = 0,
      error = Some \<lparr>message = network_error_message, body = Some (JString m)\<rparr>\<rparr>"

abbreviation http_failure :: "nat \<Rightarrow> string \<Rightarrow> ApiResponse" where
  "http_failure st t \<equiv>
     \<lparr>success = False, data = JNull, status = st,
      error = Some \<lparr>message = http_error_message st, body = Some (JString t)\<rparr>\<rparr>"

section \<open>Properties of the transport client\<close>

subsection \<open>What \<^verbatim>\<open>get\<close> and \<^verbatim>\<open>post\<close> compute, case by case\<close>

lemma get_eq:
  "get net this endpoint params w =
     (case net (requests w) (get_request (get_url this endpoint params)) of
        Rejects e \<Rightarrow>
          on_error (''endpoint '' @ endpoint) (thrown_by e)
            (w\<lparr>requests := requests w @ [get_request (get_url this endpoint params)]\<rparr>)
      | Resolves r \<Rightarrow>
          try_catch (on_response (''endpoint: '' @ endpoint) r)
            (on_error (''endpoint '' @ endpoint))
            (w\<lparr>requests := requests w @ [get_request (get_url this endpoint params)]\<rparr>))"
  unfolding get_def get_try_def try_catch_def fetch_def Let_def
  by (cases "net (requests w) (get_request (get_url this endpoint params))") simp_all

lemma post_eq:
  "post net this target (Tree j) w =
     (case net (requests w) (post_request (proxyUrl this @ target) j) of
        Rejects e \<Rightarrow>
          on_error (''url '' @ target) (thrown_by e)
            (w\<lparr>requests := requests w @ [post_request (proxyUrl this @ target) j]\<rparr>)
      | Resolves r \<Rightarrow>
          try_catch (on_response (''url: '' @ target) r) (on_error (''url '' @ target))
            (w\<lparr>requests := requests w @ [post_request (proxyUrl this @ target) j]\<rparr>))"
  unfolding post_def post_try_def try_catch_def fetch_def Let_def
  by (cases "net (requests w) (post_request (proxyUrl this @ target) j)") simp_all

lemma post_unserialisable:
  "post net this target (Unserialisable e) w = on_error (''url '' @ target) e w"
  by (simp add: post_def post_try_def try_catch_def)

lemma read_message_rejection:
  "read_message (thrown_by e) = Inr (Some (JString (message_of e)))"
  by (cases e) simp_all

lemma on_error_readable:
  "read_message e = Inr m \<Longrightarrow>
   on_error what e w =
     (Inr \<lparr>success = False, data = JNull, status = 0,
           error = Some \<lparr>message = network_error_message, body = m\<rparr>\<rparr>,
      console_error [LogString (''Network or fetch error for '' @ what @ '':''), LogError e] w)"
  by (simp add: on_error_def Let_def)

lemma on_error_unreadable:
  "read_message e = Inl t \<Longrightarrow>
   on_error what e w =
     (Inl t,
      console_error [LogString (''Network or fetch error for '' @ what @ '':''), LogError e] w)"
  by (simp add: on_error_def Let_def)

lemma on_error_rejection:
  "on_error what (thrown_by e) w =
     (Inr (network_failure (message_of e)),
      console_error
        [LogString (''Network or fetch error for '' @ what @ '':''), LogError (thrown_by e)] w)"
  by (rule on_error_readable) (rule read_message_rejection)

lemma settled_ok:
  "ok r \<Longrightarrow> json_result r = Inr d \<Longrightarrow>
   try_catch (on_response what r) (on_error what') w =
     (Inr \<lparr>success = True, data = d, status = response_status r, error = None\<rparr>,
      w\<lparr>reads := reads w @ [ReadJson]\<rparr>)"
  by (simp add: try_catch_def on_response_def response_json_def settle_def)

lemma settled_unparsable:
  "ok r \<Longrightarrow> json_result r = Inl e \<Longrightarrow>
   try_catch (on_response what r) (on_error what') w =
     on_error what' (thrown_by e) (w\<lparr>reads := reads w @ [ReadJson]\<rparr>)"
  by (simp add: try_catch_def on_response_def response_json_def settle_def)

lemma settled_http_failure:
  "\<not> ok r \<Longrightarrow> text_result r = Inr t \<Longrightarrow>
   try_catch (on_response what r) (on_error what') w =
     (Inr (http_failure (response_status r) t),
      console_error
        [LogString (''HTTP error! status: '' @ show_nat (response_status r) @ '', '' @ what
           @ '', body: '' @ t)]
        (w\<lparr>reads := reads w @ [ReadText]\<rparr>))"
  by (simp add: try_catch_def on_response_def response_text_def settle_def Let_def)

lemma settled_unreadable:
  "\<not> ok r \<Longrightarrow> text_result r = Inl e \<Longrightarrow>
   try_catch (on_response what r) (on_error what') w =
     on_error what' (thrown_by e) (w\<lparr>reads := reads w @ [ReadText]\<rparr>)"
  by (simp add: try_catch_def on_response_def response_text_def settle_def)

lemma on_error_rejection_returns:
  "\<exists>out w'. on_error what (thrown_by e) w = (Inr out, w')"
  unfolding on_error_rejection by (intro exI) (rule refl)

lemma settled_returns:
  "\<exists>out w'. try_catch (on_response what r) (on_error what') w = (Inr out, w')"
proof (cases "ok r")
  case True
  show ?thesis
  proof (cases "json_result r")
    case (Inl e)
    show ?thesis
      unfolding settled_unparsable [OF True Inl] by (rule on_error_rejection_returns)
  next
    case (Inr d)
    show ?thesis unfolding settled_ok [OF True Inr] by (intro exI) (rule refl)
  qed
next
  case False
  show ?thesis
  proof (cases "text_result r")
    case (Inl e)
    show ?thesis
      unfolding settled_unreadable [OF False Inl] by (rule on_error_rejection_returns)
  next
    case (Inr t)
    show ?thesis unfolding settled_http_failure [OF False Inr] by (intro exI) (rule refl)
  qed
qed

text \<open>
  \<^verbatim>\<open>get\<close> always returns an outcome: every value thrown inside its \<^verbatim>\<open>try\<close> block is
  an error object of the platform. So does \<^verbatim>\<open>post\<close> on a body that serialises, and on
  one where \<^verbatim>\<open>JSON.stringify\<close> throws a value whose \<^verbatim>\<open>message\<close> can be read.
\<close>

lemma get_returns: "\<exists>out w'. get net this endpoint params w = (Inr out, w')"
proof (cases "net (requests w) (get_request (get_url this endpoint params))")
  case (Rejects e)
  show ?thesis
    unfolding get_eq Rejects fetch_result.case by (rule on_error_rejection_returns)
next
  case (Resolves r)
  show ?thesis unfolding get_eq Resolves fetch_result.case by (rule settled_returns)
qed


lemma post_readable_returns:
  "read_message e = Inr m \<Longrightarrow>
   \<exists>out w'. post net this target (Unserialisable e) w = (Inr out, w')"
  unfolding post_unserialisable by (simp only: on_error_readable) (intro exI, rule refl)


subsection \<open>The shape of an outcome\<close>

lemma on_error_shape:
  assumes "on_error what e w = (Inr out, w')"
  shows "\<not> success out \<and> data out = JNull \<and> status out = 0 \<and> error out \<noteq> None"
proof (cases "read_message e")
  case (Inl t)
  from assms show ?thesis by (simp add: on_error_unreadable [OF Inl])
next
  case (Inr m)
  from assms have "out = \<lparr>success = False, data = JNull, status = 0,
      error = Some \<lparr>message = network_error_message, body = m\<rparr>\<rparr>"
    by (simp only: on_error_readable [OF Inr] prod.inject sum.inject)
  then show ?thesis by simp
qed

lemma settled_shape:
  assumes "try_catch (on_response what r) (on_error what') w = (Inr out, w')"
  shows "(success out \<and> error out = None \<and> ok r \<and> json_result r = Inr (data out))
         \<or> (\<not> success out \<and> data out = JNull \<and> error out \<noteq> None)"
proof (cases "ok r")
  case True
  show ?thesis
  proof (cases "json_result r")
    case (Inl e)
    have "on_error what' (thrown_by e) (w\<lparr>reads := reads w @ [ReadJson]\<rparr>) = (Inr out, w')"
      using assms by (simp only: settled_unparsable [OF True Inl])
    from on_error_shape [OF this] show ?thesis by simp
  next
    case (Inr d)
    have "out = \<lparr>success = True, data = d, status = response_status r, error = None\<rparr>"
      using assms by (simp only: settled_ok [OF True Inr] prod.inject sum.inject)
    with True Inr show ?thesis by simp
  qed
next
  case False
  show ?thesis
  proof (cases "text_result r")
    case (Inl e)
    have "on_error what' (thrown_by e) (w\<lparr>reads := reads w @ [ReadText]\<rparr>) = (Inr out, w')"
      using assms by (simp only: settled_unreadable [OF False Inl])
    from on_error_shape [OF this] show ?thesis by simp
  next
    case (Inr t)
    have "out = http_failure (response_status r) t"
      using assms by (simp only: settled_http_failure [OF False Inr] prod.inject sum.inject)
    then show ?thesis by simp
  qed
qed

lemma get_on_rejection:
  "net (requests w) (get_request (get_url this endpoint params)) = Rejects e \<Longrightarrow>
   fst (get net this endpoint params w) = Inr (network_failure (message_of e))"
  by (simp add: get_eq on_error_rejection)

lemma post_on_rejection:
  "net (requests w) (post_request (proxyUrl this @ target) j) = Rejects e \<Longrightarrow>
   fst (post net this target (Tree j) w) = Inr (network_failure (message_of e))"
  by (simp add: post_eq on_error_rejection)

lemma get_on_unparsable:
  "net (requests w) (get_request (get_url this endpoint params)) = Resolves r \<Longrightarrow>
   ok r \<Longrightarrow> json_result r = Inl e \<Longrightarrow>
   fst (get net this endpoint params w) = Inr (network_failure (message_of e))"
  by (simp add: get_eq settled_unparsable on_error_rejection)

lemma post_on_unparsable:
  "net (requests w) (post_request (proxyUrl this @ target) j) = Resolves r \<Longrightarrow>
   ok r \<Longrightarrow> json_result r = Inl e \<Longrightarrow>
   fst (post net this target (Tree j) w) = Inr (network_failure (message_of e))"
  by (simp add: post_eq settled_unparsable on_error_rejection)

lemma get_on_unreadable:
  "net (requests w) (get_request (get_url this endpoint params)) = Resolves r \<Longrightarrow>
   \<not> ok r \<Longrightarrow> text_result r = Inl e \<Longrightarrow>
   fst (get net this endpoint params w) = Inr (network_failure (message_of e))
   \<and> reads (snd (get net this endpoint params w)) = reads w @ [ReadText]"
  by (simp add: get_eq settled_unreadable on_error_rejection console_error_def)

lemma post_on_unreadable:
  "net (requests w) (post_request (proxyUrl this @ target) j) = Resolves r \<Longrightarrow>
   \<not> ok r \<Longrightarrow> text_result r = Inl e \<Longrightarrow>
   fst (post net this target (Tree j) w) = Inr (network_failure (message_of e))
   \<and> reads (snd (post net this target (Tree j) w)) = reads w @ [ReadText]"
  by (simp add: post_eq settled_unreadable on_error_rejection console_error_def)

lemma get_on_http_failure:
  "net (requests w) (get_request (get_url this endpoint params)) = Resolves r \<Longrightarrow>
   \<not> ok r \<Longrightarrow> text_result r = Inr t \<Longrightarrow>
   get net this endpoint params w =
     (Inr (http_failure (response_status r) t),
      console_error
        [LogString (''HTTP error! status: '' @ show_nat (response_status r)
           @ '', endpoint: '' @ endpoint @ '', body: '' @ t)]
        (w\<lparr>requests := requests w @ [get_request (get_url this endpoint params)],
           reads := reads w @ [ReadText]\<rparr>))"
  by (simp add: get_eq settled_http_failure)

lemma post_on_http_failure:
  "net (requests w) (post_request (proxyUrl this @ target) j) = Resolves r \<Longrightarrow>
   \<not> ok r \<Longrightarrow> text_result r = Inr t \<Longrightarrow>
   post net this target (Tree j) w =
     (Inr (http_failure (response_status r) t),
      console_error
        [LogString (''HTTP error! status: '' @ show_nat (response_status r)
           @ '', url: '' @ target @ '', body: '' @ t)]
        (w\<lparr>requests := requests w @ [post_request (proxyUrl this @ target) j],
           reads := reads w @ [ReadText]\<rparr>))"
  by (simp add: post_eq settled_http_failure)

lemma get_on_success:
  "net (requests w) (get_request (get_url this endpoint params)) = Resolves r \<Longrightarrow>
   ok r \<Longrightarrow> json_result r = Inr d \<Longrightarrow>
   get net this endpoint params w =
     (Inr \<lparr>success = True, data = d, status = response_status r, error = None\<rparr>,
      w\<lparr>requests := requests w @ [get_request (get_url this endpoint params)],
        reads := reads w @ [ReadJson]\<rparr>)"
  by (simp add: get_eq settled_ok)

lemma post_on_success:
  "net (requests w) (post_request (proxyUrl this @ target) j) = Resolves r \<Longrightarrow>
   ok r \<Longrightarrow> json_result r = Inr d \<Longrightarrow>
   post net this target (Tree j) w =
     (Inr \<lparr>success = True, data = d, status = response_status r, error = None\<rparr>,
      w\<lparr>requests := requests w @ [post_request (proxyUrl this @ target) j],
        reads := reads w @ [ReadJson]\<rparr>)"
  by (simp add: post_eq settled_ok)

subsection \<open>The claims about \<^verbatim>\<open>get\<close> and \<^verbatim>\<open>post\<close>\<close>



text \<open>
  Claim C3, as the code has it. An outcome of \<^verbatim>\<open>get\<close> or \<^verbatim>\<open>post\<close> is of one of two
  shapes. A failure has the payload \<^verbatim>\<open>null\<close> and a failure record. A success has no
  failure record, and its payload is the value the body of the ok response parsed to:
  any JSON value, \<^verbatim>\<open>null\<close> included.
\<close>

theorem outcome_shape:
  "(fst (get net this endpoint params w) = Inr out \<longrightarrow>
      (success out \<and> error out = None
         \<and> (\<exists>r. net (requests w) (get_request (get_url this endpoint params)) = Resolves r
                \<and> ok r \<and> json_result r = Inr (data out)))
      \<or> (\<not> success out \<and> data out = JNull \<and> error out \<noteq> None))
   \<and> (fst (post net this target b w) = Inr out \<longrightarrow>
      (success out \<and> error out = None
         \<and> (\<exists>r j. b = Tree j
                \<and> net (requests w) (post_request (proxyUrl this @ target) j) = Resolves r
                \<and> ok r \<and> json_result r = Inr (data out)))
      \<or> (\<not> success out \<and> data out = JNull \<and> error out \<noteq> None))"
proof (intro conjI impI)
  assume "fst (get net this endpoint params w) = Inr out"
  then have g: "get net this endpoint params w = (Inr out, snd (get net this endpoint params w))"
    by (simp add: prod_eq_iff)
  show "(success out \<and> error out = None
         \<and> (\<exists>r. net (requests w) (get_request (get_url this endpoint params)) = Resolves r
                \<and> ok r \<and> json_result r = Inr (data out)))
      \<or> (\<not> success out \<and> data out = JNull \<and> error out \<noteq> None)"
  proof (cases "net (requests w) (get_request (get_url this endpoint params))")
    case (Rejects e)
    from g have "on_error (''endpoint '' @ endpoint) (thrown_by e)
        (w\<lparr>requests := requests w @ [get_request (get_url this endpoint params)]\<rparr>)
      = (Inr out, snd (get net this endpoint params w))"
      by (simp only: get_eq Rejects fetch_result.case)
    from on_error_shape [OF this] show ?thesis by simp
  next
    case (Resolves r)
    from g have "try_catch (on_response (''endpoint: '' @ endpoint) r)
        (on_error (''endpoint '' @ endpoint))
        (w\<lparr>requests := requests w @ [get_request (get_url this endpoint params)]\<rparr>)
      = (Inr out, snd (get net this endpoint params w))"
      by (simp only: get_eq Resolves fetch_result.case)
    from settled_shape [OF this] Resolves show ?thesis by auto
  qed
next
  assume "fst (post net this target b w) = Inr out"
  then have p: "post net this target b w = (Inr out, snd (post net this target b w))"
    by (simp add: prod_eq_iff)
  show "(success out \<and> error out = None
         \<and> (\<exists>r j. b = Tree j
                \<and> net (requests w) (post_request (proxyUrl this @ target) j) = Resolves r
                \<and> ok r \<and> json_result r = Inr (data out)))
      \<or> (\<not> success out \<and> data out = JNull \<and> error out \<noteq> None)"
  proof (cases b)
    case (Unserialisable e)
    from p have "on_error (''url '' @ target) e w = (Inr out, snd (post net this target b w))"
      by (simp only: Unserialisable post_unserialisable)
    from on_error_shape [OF this] show ?thesis by simp
  next
    case (Tree j)
    show ?thesis
    proof (cases "net (requests w) (post_request (proxyUrl this @ target) j)")
      case (Rejects e)
      from p have "on_error (''url '' @ target) (thrown_by e)
          (w\<lparr>requests := requests w @ [post_request (proxyUrl this @ target) j]\<rparr>)
        = (Inr out, snd (post net this target b w))"
        by (simp only: Tree post_eq Rejects fetch_result.case)
      from on_error_shape [OF this] show ?thesis by simp
    next
      case (Resolves r)
      from p have "try_catch (on_response (''url: '' @ target) r) (on_error (''url '' @ target))
          (w\<lparr>requests := requests w @ [post_request (proxyUrl this @ target) j]\<rparr>)
        = (Inr out, snd (post net this target b w))"
        by (simp only: Tree post_eq Resolves fetch_result.case)
      from settled_shape [OF this] Resolves Tree show ?thesis by auto
    qed
  qed
qed

theorem outcome_shape_witness:
  "fst (get (scripted [Resolves (text_response 404 ''Not Found'')]) apiClient
          ''/api/cases/7'' [] empty_world) = Inr (http_failure 404 ''Not Found'')
   \<and> fst (post (scripted [Resolves (text_response 404 ''Not Found'')]) apiClient
          ''https://island.is/api/graphql'' (Tree JNull) empty_world)
       = Inr (http_failure 404 ''Not Found'')
   \<and> \<not> success (http_failure 404 ''Not Found'')
   \<and> data (http_failure 404 ''Not Found'') = JNull
   \<and> error (http_failure 404 ''Not Found'') \<noteq> None"
proof -
  let ?r = "text_response 404 ''Not Found''"
  let ?net = "scripted [Resolves ?r]"
  let ?out = "http_failure 404 ''Not Found''"
  have r: "\<not> ok ?r" "text_result ?r = Inr ''Not Found''" "response_status ?r = 404"
    by (simp_all add: ok_def text_response_def)
  have n: "?net (requests empty_world) req = Resolves ?r" for req
    by (simp add: scripted_def empty_world_def)
  have g: "fst (get ?net apiClient ''/api/cases/7'' [] empty_world) = Inr ?out"
    using get_on_http_failure
      [of ?net empty_world apiClient "''/api/cases/7''" "[]" ?r "''Not Found''", OF n r(1) r(2)]
    by (simp add: r(3))
  have p: "fst (post ?net apiClient ''https://island.is/api/graphql'' (Tree JNull) empty_world)
      = Inr ?out"
    using post_on_http_failure
      [of ?net empty_world apiClient "''https://island.is/api/graphql''" JNull ?r
        "''Not Found''", OF n r(1) r(2)]
    by (simp add: r(3))
  note s = outcome_shape [of ?net apiClient "''/api/cases/7''" "[]" empty_world ?out
      "''https://island.is/api/graphql''" "Tree JNull"]
  have f: "\<not> success ?out" by simp
  from conjunct1 [OF s] g
  have "(success ?out \<and> error ?out = None
         \<and> (\<exists>r. ?net (requests empty_world)
                  (get_request (get_url apiClient ''/api/cases/7'' [])) = Resolves r
                \<and> ok r \<and> json_result r = Inr (data ?out)))
      \<or> (\<not> success ?out \<and> data ?out = JNull \<and> error ?out \<noteq> None)"
    by (rule mp)
  with f have "\<not> success ?out \<and> data ?out = JNull \<and> error ?out \<noteq> None"
    by blast
  with g p show ?thesis by blast
qed

text \<open>
  Claim C3 as stated fails: an ok response whose body is the JSON text \<^verbatim>\<open>null\<close> gives
  a success outcome with the payload \<^verbatim>\<open>null\<close>, so neither payload nor failure is
  populated.
\<close>

theorem success_with_null_payload:
  "fst (get (scripted [Resolves (json_response 200 JNull)]) apiClient ''/api/cases/7'' []
          empty_world)
   = Inr \<lparr>success = True, data = JNull, status = 200, error = None\<rparr>"
proof -
  let ?r = "json_response 200 JNull"
  have r: "ok ?r" "json_result ?r = Inr JNull" "response_status ?r = 200"
    by (simp_all add: ok_def json_response_def)
  have n: "scripted [Resolves ?r] (requests empty_world) req = Resolves ?r" for req
    by (simp add: scripted_def empty_world_def)
  show ?thesis
    using get_on_success
      [of "scripted [Resolves ?r]" empty_world apiClient "''/api/cases/7''" "[]" ?r JNull,
        OF n r(1) r(2)]
    by (simp add: r(3))
qed

text \<open>
  Claim C4, as the code has it. When the response has an ok status and its body does
  not parse as JSON, \<^verbatim>\<open>get\<close> and \<^verbatim>\<open>post\<close> return the failure with status \<open>0\<close>, the
  payload \<^verbatim>\<open>null\<close> and the network-failure message, as they do when \<^verbatim>\<open>fetch\<close> is
  rejected: status, payload and message do not tell the two apart. The diagnostic body
  is the message of the error that was thrown, so the two outcomes are equal exactly
  when the parse error and the connection error carry the same message.
\<close>

theorem unparsable_body_differs_in_diagnostic_body_only:
  "(net (requests w) (get_request (get_url this endpoint params)) = Resolves r
      \<and> ok r \<and> json_result r = Inl e
      \<and> net' (requests w) (get_request (get_url this endpoint params)) = Rejects e'
    \<longrightarrow> fst (get net this endpoint params w) = Inr (network_failure (message_of e))
        \<and> fst (get net' this endpoint params w) = Inr (network_failure (message_of e'))
        \<and> (fst (get net this endpoint params w) = fst (get net' this endpoint params w)
             \<longleftrightarrow> message_of e = message_of e'))
   \<and> (net (requests w) (post_request (proxyUrl this @ target) j) = Resolves r
      \<and> ok r \<and> json_result r = Inl e
      \<and> net' (requests w) (post_request (proxyUrl this @ target) j) = Rejects e'
    \<longrightarrow> fst (post net this target (Tree j) w) = Inr (network_failure (message_of e))
        \<and> fst (post net' this target (Tree j) w) = Inr (network_failure (message_of e'))
        \<and> (fst (post net this target (Tree j) w) = fst (post net' this target (Tree j) w)
             \<longleftrightarrow> message_of e = message_of e'))"
proof (intro conjI impI)
  assume a: "net (requests w) (get_request (get_url this endpoint params)) = Resolves r
      \<and> ok r \<and> json_result r = Inl e
      \<and> net' (requests w) (get_request (get_url this endpoint params)) = Rejects e'"
  from a show 1: "fst (get net this endpoint params w) = Inr (network_failure (message_of e))"
    by (intro get_on_unparsable [of net w this endpoint params r e]) simp_all
  from a show 2: "fst (get net' this endpoint params w) = Inr (network_failure (message_of e'))"
    by (intro get_on_rejection [of net' w this endpoint params e']) simp_all
  show "fst (get net this endpoint params w) = fst (get net' this endpoint params w)
      \<longleftrightarrow> message_of e = message_of e'"
    by (simp add: 1 2)
next
  assume a: "net (requests w) (post_request (proxyUrl this @ target) j) = Resolves r
      \<and> ok r \<and> json_result r = Inl e
      \<and> net' (requests w) (post_request (proxyUrl this @ target) j) = Rejects e'"
  from a show 1: "fst (post net this target (Tree j) w) = Inr (network_failure (message_of e))"
    by (intro post_on_unparsable [of net w this target j r e]) simp_all
  from a show 2: "fst (post net' this target (Tree j) w) = Inr (network_failure (message_of e'))"
    by (intro post_on_rejection [of net' w this target j e']) simp_all
  show "fst (post net this target (Tree j) w) = fst (post net' this target (Tree j) w)
      \<longleftrightarrow> message_of e = message_of e'"
    by (simp add: 1 2)
qed

theorem unparsable_body_differs_in_diagnostic_body_only_witness:
  "fst (get (scripted [Resolves (text_response 200 ''<html>'')]) apiClient ''/api/cases''
          [] empty_world)
     = Inr (network_failure
         ''JSON.parse: unexpected character at line 1 column 1 of the JSON data'')
   \<and> fst (get (scripted []) apiClient ''/api/cases'' [] empty_world)
     = Inr (network_failure ''Failed to fetch'')
   \<and> fst (post (scripted [Resolves (text_response 200 ''<html>'')]) apiClient
          ''https://island.is/api/graphql'' (Tree JNull) empty_world)
     = Inr (network_failure
         ''JSON.parse: unexpected character at line 1 column 1 of the JSON data'')
   \<and> fst (post (scripted []) apiClient ''https://island.is/api/graphql'' (Tree JNull)
          empty_world)
     = Inr (network_failure ''Failed to fetch'')"
proof -
  let ?r = "text_response 200 ''<html>''"
  have r: "ok ?r" "json_result ?r = Inl unexpected_character"
    by (simp_all add: ok_def text_response_def)
  have n: "scripted [Resolves ?r] (requests empty_world) req = Resolves ?r" for req
    by (simp add: scripted_def empty_world_def)
  have n': "scripted [] (requests empty_world) req = Rejects failed_to_fetch" for req
    by (simp add: scripted_def)
  have m: "message_of unexpected_character
      = ''JSON.parse: unexpected character at line 1 column 1 of the JSON data''"
    "message_of failed_to_fetch = ''Failed to fetch''"
    by (simp_all add: unexpected_character_def failed_to_fetch_def)
  note s = unparsable_body_differs_in_diagnostic_body_only
    [of "scripted [Resolves ?r]" empty_world apiClient "''/api/cases''" "[]" ?r
      unexpected_character "scripted []" failed_to_fetch
      "''https://island.is/api/graphql''" JNull]
  have g: "fst (get (scripted [Resolves ?r]) apiClient ''/api/cases'' [] empty_world)
        = Inr (network_failure (message_of unexpected_character))
      \<and> fst (get (scripted []) apiClient ''/api/cases'' [] empty_world)
        = Inr (network_failure (message_of failed_to_fetch))
      \<and> (fst (get (scripted [Resolves ?r]) apiClient ''/api/cases'' [] empty_world)
           = fst (get (scripted []) apiClient ''/api/cases'' [] empty_world)
         \<longleftrightarrow> message_of unexpected_character = message_of failed_to_fetch)"
    by (rule mp [OF conjunct1 [OF s]]) (intro conjI n n' r)
  have p: "fst (post (scripted [Resolves ?r]) apiClient ''https://island.is/api/graphql''
          (Tree JNull) empty_world) = Inr (network_failure (message_of unexpected_character))
      \<and> fst (post (scripted []) apiClient ''https://island.is/api/graphql'' (Tree JNull)
          empty_world) = Inr (network_failure (message_of failed_to_fetch))
      \<and> (fst (post (scripted [Resolves ?r]) apiClient ''https://island.is/api/graphql''
            (Tree JNull) empty_world)
           = fst (post (scripted []) apiClient ''https://island.is/api/graphql'' (Tree JNull)
            empty_world)
         \<longleftrightarrow> message_of unexpected_character = message_of failed_to_fetch)"
    by (rule mp [OF conjunct2 [OF s]]) (intro conjI n n' r)
  from g p show ?thesis unfolding m by blast
qed

text \<open>
  Claim C4 as stated fails: the outcome for a 200 response with the body
  \<^verbatim>\<open><html>\<close> and the outcome for a connection that fails are different values, which
  a caller can tell apart by \<^verbatim>\<open>error.body\<close>.
\<close>

theorem unparsable_body_is_distinguishable:
  "fst (get (scripted [Resolves (text_response 200 ''<html>'')]) apiClient ''/api/cases''
          [] empty_world)
   \<noteq> fst (get (scripted []) apiClient ''/api/cases'' [] empty_world)"
proof -
  let ?r = "text_response 200 ''<html>''"
  have r: "ok ?r" "json_result ?r = Inl unexpected_character"
    by (simp_all add: ok_def text_response_def)
  have n: "scripted [Resolves ?r] (requests empty_world) req = Resolves ?r" for req
    by (simp add: scripted_def empty_world_def)
  have n': "scripted [] (requests empty_world) req = Rejects failed_to_fetch" for req
    by (simp add: scripted_def)
  have 1: "fst (get (scripted [Resolves ?r]) apiClient ''/api/cases'' [] empty_world)
      = Inr (network_failure (message_of unexpected_character))"
    using get_on_unparsable
      [of "scripted [Resolves ?r]" empty_world apiClient "''/api/cases''" "[]" ?r
        unexpected_character, OF n r] .
  have 2: "fst (get (scripted []) apiClient ''/api/cases'' [] empty_world)
      = Inr (network_failure (message_of failed_to_fetch))"
    using get_on_rejection
      [of "scripted []" empty_world apiClient "''/api/cases''" "[]" failed_to_fetch, OF n'] .
  show ?thesis
    by (simp add: 1 2 unexpected_character_def failed_to_fetch_def)
qed

text \<open>
  Claim C5, as the code has it. When the response has a status outside 200 to 299, the
  only reader called on it is \<^verbatim>\<open>text()\<close>: the body is not parsed. When the body reads
  as the text \<open>t\<close>, \<^verbatim>\<open>get\<close> and \<^verbatim>\<open>post\<close> return the failure that carries that status
  and \<open>t\<close> as diagnostic body, with the payload \<^verbatim>\<open>null\<close>. When reading the body fails,
  the \<^verbatim>\<open>catch\<close> block answers: the failure has status \<open>0\<close>, the network-failure
  message and the message of the read error as diagnostic body.
\<close>

theorem http_failure_keeps_status_and_readable_body:
  "(net (requests w) (get_request (get_url this endpoint params)) = Resolves r
      \<and> (response_status r < 200 \<or> 299 < response_status r)
    \<longrightarrow> reads (snd (get net this endpoint params w)) = reads w @ [ReadText]
        \<and> (text_result r = Inr t
             \<longrightarrow> fst (get net this endpoint params w)
                   = Inr (http_failure (response_status r) t))
        \<and> (text_result r = Inl e
             \<longrightarrow> fst (get net this endpoint params w)
                   = Inr (network_failure (message_of e))))
   \<and> (net (requests w) (post_request (proxyUrl this @ target) j) = Resolves r
      \<and> (response_status r < 200 \<or> 299 < response_status r)
    \<longrightarrow> reads (snd (post net this target (Tree j) w)) = reads w @ [ReadText]
        \<and> (text_result r = Inr t
             \<longrightarrow> fst (post net this target (Tree j) w)
                   = Inr (http_failure (response_status r) t))
        \<and> (text_result r = Inl e
             \<longrightarrow> fst (post net this target (Tree j) w)
                   = Inr (network_failure (message_of e))))"
proof (intro conjI impI)
  assume a: "net (requests w) (get_request (get_url this endpoint params)) = Resolves r
      \<and> (response_status r < 200 \<or> 299 < response_status r)"
  then have n: "net (requests w) (get_request (get_url this endpoint params)) = Resolves r"
    and k: "\<not> ok r"
    by (auto simp add: ok_def)
  show "reads (snd (get net this endpoint params w)) = reads w @ [ReadText]"
  proof (cases "text_result r")
    case (Inl e0)
    from get_on_unreadable [of net w this endpoint params r _, OF n k Inl] show ?thesis by simp
  next
    case (Inr t0)
    show ?thesis by (simp add: get_on_http_failure [of net w this endpoint params r _, OF n k Inr] console_error_def)
  qed
  show "fst (get net this endpoint params w) = Inr (http_failure (response_status r) t)"
    if "text_result r = Inr t"
    by (simp add: get_on_http_failure [of net w this endpoint params r _, OF n k that])
  show "fst (get net this endpoint params w) = Inr (network_failure (message_of e))"
    if "text_result r = Inl e"
    using get_on_unreadable [of net w this endpoint params r _, OF n k that] by simp
next
  assume a: "net (requests w) (post_request (proxyUrl this @ target) j) = Resolves r
      \<and> (response_status r < 200 \<or> 299 < response_status r)"
  then have n: "net (requests w) (post_request (proxyUrl this @ target) j) = Resolves r"
    and k: "\<not> ok r"
    by (auto simp add: ok_def)
  show "reads (snd (post net this target (Tree j) w)) = reads w @ [ReadText]"
  proof (cases "text_result r")
    case (Inl e0)
    from post_on_unreadable [of net w this target j r _, OF n k Inl] show ?thesis by simp
  next
    case (Inr t0)
    show ?thesis by (simp add: post_on_http_failure [of net w this target j r _, OF n k Inr] console_error_def)
  qed
  show "fst (post net this target (Tree j) w) = Inr (http_failure (response_status r) t)"
    if "text_result r = Inr t"
    by (simp add: post_on_http_failure [of net w this target j r _, OF n k that])
  show "fst (post net this target (Tree j) w) = Inr (network_failure (message_of e))"
    if "text_result r = Inl e"
    using post_on_unreadable [of net w this target j r _, OF n k that] by simp
qed

theorem http_failure_keeps_status_and_readable_body_witness:
  "fst (get (scripted [Resolves (text_response 404 ''Not Found'')]) apiClient
          ''/api/cases/7'' [] empty_world) = Inr (http_failure 404 ''Not Found'')
   \<and> reads (snd (get (scripted [Resolves (text_response 404 ''Not Found'')]) apiClient
          ''/api/cases/7'' [] empty_world)) = [ReadText]
   \<and> fst (post (scripted [Resolves (unreadable_response 500)]) apiClient
          ''https://island.is/api/graphql'' (Tree JNull) empty_world)
       = Inr (network_failure ''Error in body stream'')
   \<and> reads (snd (post (scripted [Resolves (unreadable_response 500)]) apiClient
          ''https://island.is/api/graphql'' (Tree JNull) empty_world)) = [ReadText]"
proof -
  let ?r = "text_response 404 ''Not Found''"
  let ?u = "unreadable_response 500"
  have r: "response_status ?r = 404" "text_result ?r = Inr ''Not Found''"
    by (simp_all add: text_response_def)
  have u: "response_status ?u = 500" "text_result ?u = Inl body_stream_error"
    "message_of body_stream_error = ''Error in body stream''"
    by (simp_all add: unreadable_response_def body_stream_error_def)
  have n: "scripted [Resolves x] (requests empty_world) req = Resolves x" for x req
    by (simp add: scripted_def empty_world_def)
  have e: "reads empty_world = []" by (simp add: empty_world_def)
  note g = http_failure_keeps_status_and_readable_body
    [where net = "scripted [Resolves ?r]" and w = empty_world and this = apiClient
      and endpoint = "''/api/cases/7''" and params = "[]" and r = ?r and t = "''Not Found''",
      THEN conjunct1]
  note p = http_failure_keeps_status_and_readable_body
    [where net = "scripted [Resolves ?u]" and w = empty_world and this = apiClient
      and target = "''https://island.is/api/graphql''" and j = JNull and r = ?u
      and e = body_stream_error, THEN conjunct2]
  from g r n e
  have 1: "fst (get (scripted [Resolves ?r]) apiClient ''/api/cases/7'' [] empty_world)
        = Inr (http_failure 404 ''Not Found'')
      \<and> reads (snd (get (scripted [Resolves ?r]) apiClient ''/api/cases/7'' []
          empty_world)) = [ReadText]"
    by simp
  from p u n e
  have 2: "fst (post (scripted [Resolves ?u]) apiClient ''https://island.is/api/graphql''
          (Tree JNull) empty_world) = Inr (network_failure ''Error in body stream'')
      \<and> reads (snd (post (scripted [Resolves ?u]) apiClient
          ''https://island.is/api/graphql'' (Tree JNull) empty_world)) = [ReadText]"
    by simp
  from 1 2 show ?thesis by blast
qed

text \<open>
  Claim C5 as stated fails: for a response with status 500 whose body cannot be read,
  \<^verbatim>\<open>get\<close> returns the failure with status \<open>0\<close> and the network-failure message, not
  one that carries the status 500 and the body text.
\<close>

theorem unreadable_body_loses_the_status:
  "fst (get (scripted [Resolves (unreadable_response 500)]) apiClient ''/api/cases'' []
          empty_world)
   = Inr \<lparr>success = False, data = JNull, status = 0,
          error = Some \<lparr>message = network_error_message,
                        body = Some (JString ''Error in body stream'')\<rparr>\<rparr>"
proof -
  let ?u = "unreadable_response 500"
  have u: "\<not> ok ?u" "text_result ?u = Inl body_stream_error"
    by (simp_all add: unreadable_response_def ok_def)
  have n: "scripted [Resolves ?u] (requests empty_world) req = Resolves ?u" for req
    by (simp add: scripted_def empty_world_def)
  from get_on_unreadable
    [of "scripted [Resolves ?u]" empty_world apiClient "''/api/cases''" "[]" ?u
      body_stream_error, OF n u]
  show ?thesis by (simp add: body_stream_error_def)
qed

section \<open>Properties of the case repository\<close>

subsection \<open>The calls of \<^verbatim>\<open>postGraphQL\<close>\<close>

lemma postGraphQL_eq:
  "postGraphQL net query variables operationName w =
     post net apiClient ''https://island.is/api/graphql''
       (Tree (graphql_body query variables operationName)) w"
  by (simp add: postGraphQL_def)


lemma on_error_requests: "requests (snd (on_error what e w)) = requests w"
  by (cases "read_message e") (simp_all add: on_error_def console_error_def Let_def)

lemma settled_requests:
  "requests (snd (try_catch (on_response what r) (on_error what') w)) = requests w"
proof (cases "ok r")
  case True
  show ?thesis
  proof (cases "json_result r")
    case (Inl e)
    show ?thesis by (simp add: settled_unparsable [OF True Inl] on_error_requests)
  next
    case (Inr d)
    show ?thesis by (simp add: settled_ok [OF True Inr])
  qed
next
  case False
  show ?thesis
  proof (cases "text_result r")
    case (Inl e)
    show ?thesis by (simp add: settled_unreadable [OF False Inl] on_error_requests)
  next
    case (Inr t)
    show ?thesis by (simp add: settled_http_failure [OF False Inr] console_error_def)
  qed
qed

lemma postGraphQL_requests:
  "requests (snd (postGraphQL net query variables operationName w)) =
     requests w @ [graphql_request query variables operationName]"
proof (cases "net (requests w) (graphql_request query variables operationName)")
  case (Rejects e)
  then show ?thesis
    by (simp add: postGraphQL_eq post_eq graphql_request_def on_error_requests)
next
  case (Resolves r)
  then show ?thesis
    by (simp add: postGraphQL_eq post_eq graphql_request_def settled_requests)
qed

lemma postGraphQL_on_success:
  assumes "net (requests w) (graphql_request query variables operationName) = Resolves r"
    and "ok r" and "json_result r = Inr d"
  shows "postGraphQL net query variables operationName w =
     (Inr \<lparr>success = True, data = d, status = response_status r, error = None\<rparr>,
      w\<lparr>requests := requests w @ [graphql_request query variables operationName],
        reads := reads w @ [ReadJson]\<rparr>)"
  using assms(1) unfolding postGraphQL_eq graphql_request_def
  by (rule post_on_success) (rule assms)+

subsection \<open>\<^verbatim>\<open>parseInt\<close> on a numeric prefix\<close>




lemma parseInt_42: "parseInt ''42'' = Some (Finite 42)"
  by (simp add: parseInt_def isWhiteSpace_def isDigit_def digits_value_def digit_value_def
      number_of_int_def round_nat_def)


subsection \<open>The callback of \<^verbatim>\<open>map\<close>\<close>

lemma map_items_records:
  "\<forall>a\<in>set items. a \<noteq> JNull \<Longrightarrow> map_items cid items = Inr (map (comment_of cid) items)"
  by (induction items) (simp_all add: to_comment_def)


subsection \<open>The claims about \<^verbatim>\<open>fetchCaseComments\<close> and \<^verbatim>\<open>searchCases\<close>\<close>


text \<open>
  Claim C7. When the input does not parse as a number (\<^verbatim>\<open>parseInt\<close> gives \<^verbatim>\<open>NaN\<close>, as
  for \<^verbatim>\<open>"abc"\<close>), \<^verbatim>\<open>fetchCaseComments\<close> raises the invalid-id error and leaves the
  world as it found it: no request has been issued. The error is raised before the
  first \<^verbatim>\<open>await\<close> of the function.
\<close>

theorem invalid_id_raises_without_request:
  "parseInt ident = None \<Longrightarrow>
   fetchCaseComments net ident w = (Inl (Error invalid_id_error), w)"
  by (simp add: fetchCaseComments_def)

theorem invalid_id_raises_without_request_witness:
  "parseInt ''abc'' = None
   \<and> fetchCaseComments (scripted []) ''abc'' empty_world
       = (Inl (Error ''A valid numeric case ID is required.''), empty_world)"
proof -
  have p: "parseInt ''abc'' = None"
    by (simp add: parseInt_def isWhiteSpace_def isDigit_def)
  from p invalid_id_raises_without_request [OF p, of "scripted []" empty_world]
  show ?thesis by (simp add: invalid_id_error_def)
qed




text \<open>
  Claim C6. When the existence check comes back as a success outcome whose payload has
  \<^verbatim>\<open>consultationPortalCaseById\<close> missing, \<^verbatim>\<open>null\<close> or without an \<^verbatim>\<open>id\<close> (or with the
  \<^verbatim>\<open>id\<close> \<^verbatim>\<open>null\<close>), \<^verbatim>\<open>fetchCaseComments\<close> returns the empty sequence in the world the
  existence check left: one request has been issued, the comments query has not. The
  value returned is the one returned for a case that exists and has no submissions.
\<close>

theorem absent_case_is_empty_without_second_query:
  assumes "parseInt ident = Some cid"
    and "postGraphQL net GET_CASE_META (case_input cid) ''CaseMeta'' w = (Inr meta, w1)"
    and "success meta"
    and "opt_member (opt_member (opt_member (Some (data meta)) ''data'')
            ''consultationPortalCaseById'') ''id'' = None
         \<or> opt_member (opt_member (opt_member (Some (data meta)) ''data'')
            ''consultationPortalCaseById'') ''id'' = Some JNull"
  shows "fetchCaseComments net ident w = (Inr [], w1)
    \<and> requests w1 = requests w @ [graphql_request GET_CASE_META (case_input cid) ''CaseMeta'']
    \<and> (postGraphQL net0 GET_CASE_META (case_input cid) ''CaseMeta'' w0 = (Inr meta0, w01)
         \<and> success meta0
         \<and> truthy (opt_member (opt_member (opt_member (Some (data meta0)) ''data'')
              ''consultationPortalCaseById'') ''id'')
         \<and> postGraphQL net0 GET_CASE_ADVICES_MINIMAL (case_input cid) ''CaseAdvices'' w01
              = (Inr adv0, w02)
         \<and> success adv0
         \<and> opt_member (opt_member (Some (data adv0)) ''data'')
              ''consultationPortalAdviceByCaseId'' = Some (JArray [])
       \<longrightarrow> fst (fetchCaseComments net0 ident w0) = fst (fetchCaseComments net ident w))"
proof (intro conjI impI)
  have nt: "\<not> truthy (opt_member (opt_member (opt_member (Some (data meta)) ''data'')
            ''consultationPortalCaseById'') ''id'')"
    using assms(4) by auto
  show r: "fetchCaseComments net ident w = (Inr [], w1)"
    by (simp add: fetchCaseComments_def assms(1,2,3) nt)
  show "requests w1 = requests w @ [graphql_request GET_CASE_META (case_input cid) ''CaseMeta'']"
    using postGraphQL_requests [of net GET_CASE_META "case_input cid" "''CaseMeta''" w]
    by (simp add: assms(2))
  assume z: "postGraphQL net0 GET_CASE_META (case_input cid) ''CaseMeta'' w0 = (Inr meta0, w01)
         \<and> success meta0
         \<and> truthy (opt_member (opt_member (opt_member (Some (data meta0)) ''data'')
              ''consultationPortalCaseById'') ''id'')
         \<and> postGraphQL net0 GET_CASE_ADVICES_MINIMAL (case_input cid) ''CaseAdvices'' w01
              = (Inr adv0, w02)
         \<and> success adv0
         \<and> opt_member (opt_member (Some (data adv0)) ''data'')
              ''consultationPortalAdviceByCaseId'' = Some (JArray [])"
  then have "fetchCaseComments net0 ident w0 = (Inr [], w02)"
    by (simp add: fetchCaseComments_def assms(1))
  with r show "fst (fetchCaseComments net0 ident w0) = fst (fetchCaseComments net ident w)"
    by simp
qed

theorem absent_case_is_empty_without_second_query_witness:
  "fst (fetchCaseComments (scripted [Resolves (json_response 200 case_absent)]) ''42''
          empty_world) = Inr []
   \<and> requests (snd (fetchCaseComments (scripted [Resolves (json_response 200 case_absent)])
          ''42'' empty_world))
       = [graphql_request GET_CASE_META (case_input (Finite 42)) ''CaseMeta'']
   \<and> fst (fetchCaseComments
          (scripted [Resolves (json_response 200 case_found),
                     Resolves (json_response 200 no_advices)]) ''42'' empty_world)
       = Inr []"
proof -
  let ?A = "scripted [Resolves (json_response 200 case_absent)]"
  let ?Z = "scripted [Resolves (json_response 200 case_found),
                      Resolves (json_response 200 no_advices)]"
  let ?q1 = "graphql_request GET_CASE_META (case_input (Finite 42)) ''CaseMeta''"
  let ?q2 = "graphql_request GET_CASE_ADVICES_MINIMAL (case_input (Finite 42)) ''CaseAdvices''"
  let ?wa = "empty_world\<lparr>requests := requests empty_world @ [?q1],
               reads := reads empty_world @ [ReadJson]\<rparr>"
  let ?wb = "?wa\<lparr>requests := requests ?wa @ [?q2], reads := reads ?wa @ [ReadJson]\<rparr>"
  have ew: "requests empty_world = []" by (simp add: empty_world_def)
  note h1 = parseInt_42
  have pa: "postGraphQL ?A GET_CASE_META (case_input (Finite 42)) ''CaseMeta'' empty_world
      = (Inr \<lparr>success = True, data = case_absent, status = 200, error = None\<rparr>, ?wa)"
    using postGraphQL_on_success
      [of ?A empty_world GET_CASE_META "case_input (Finite 42)" "''CaseMeta''"
        "json_response 200 case_absent" case_absent]
    by (simp add: scripted_def ew json_response_def ok_def)
  have pz1: "postGraphQL ?Z GET_CASE_META (case_input (Finite 42)) ''CaseMeta'' empty_world
      = (Inr \<lparr>success = True, data = case_found, status = 200, error = None\<rparr>, ?wa)"
    using postGraphQL_on_success
      [of ?Z empty_world GET_CASE_META "case_input (Finite 42)" "''CaseMeta''"
        "json_response 200 case_found" case_found]
    by (simp add: scripted_def ew json_response_def ok_def)
  have pz2: "postGraphQL ?Z GET_CASE_ADVICES_MINIMAL (case_input (Finite 42)) ''CaseAdvices'' ?wa
      = (Inr \<lparr>success = True, data = no_advices, status = 200, error = None\<rparr>, ?wb)"
    using postGraphQL_on_success
      [of ?Z ?wa GET_CASE_ADVICES_MINIMAL "case_input (Finite 42)" "''CaseAdvices''"
        "json_response 200 no_advices" no_advices]
    by (simp add: scripted_def ew json_response_def ok_def)
  have h4: "opt_member (opt_member (opt_member (Some case_absent) ''data'')
            ''consultationPortalCaseById'') ''id'' = None"
    by (simp add: case_absent_def)
  have z3: "truthy (opt_member (opt_member (opt_member (Some case_found) ''data'')
              ''consultationPortalCaseById'') ''id'')"
    by (simp add: case_found_def)
  have z6: "opt_member (opt_member (Some no_advices) ''data'')
              ''consultationPortalAdviceByCaseId'' = Some (JArray [])"
    by (simp add: no_advices_def)
  note t = absent_case_is_empty_without_second_query
    [where ident = "''42''" and cid = "Finite 42" and net = "?A" and w = empty_world and ?w1.0 = "?wa"
      and meta = "\<lparr>success = True, data = case_absent, status = 200, error = None\<rparr>"
      and ?net0.0 = "?Z" and ?w0.0 = empty_world and ?w01.0 = "?wa" and ?w02.0 = "?wb"
      and ?meta0.0 = "\<lparr>success = True, data = case_found, status = 200, error = None\<rparr>"
      and ?adv0.0 = "\<lparr>success = True, data = no_advices, status = 200, error = None\<rparr>",
      OF h1 pa]
  have t': "fetchCaseComments ?A ''42'' empty_world = (Inr [], ?wa)
     \<and> requests ?wa = requests empty_world @ [?q1]
     \<and> fst (fetchCaseComments ?Z ''42'' empty_world)
         = fst (fetchCaseComments ?A ''42'' empty_world)"
    using t h4 z3 z6 pz1 pz2 by simp
  then show ?thesis by (simp add: ew)
qed

text \<open>
  Claim C8. When the existence check finds the case and the comments query comes back as
  a success outcome with an array of records (no element is \<^verbatim>\<open>null\<close>),
  \<^verbatim>\<open>fetchCaseComments\<close> returns one comment per record, in order. Each comment has the
  parsed id as \<open>caseId\<close> and no attachments; a record without \<^verbatim>\<open>participantName\<close> (or
  with \<^verbatim>\<open>null\<close>) gives the empty string as \<open>contact\<close>; a record without \<^verbatim>\<open>content\<close>, or
  with \<^verbatim>\<open>null\<close> or the empty string, gives the placeholder as \<open>comment\<close>.
\<close>

theorem records_are_mapped_to_comments:
  assumes "parseInt ident = Some cid"
    and "postGraphQL net GET_CASE_META (case_input cid) ''CaseMeta'' w = (Inr meta, w1)"
    and "success meta"
    and "truthy (opt_member (opt_member (opt_member (Some (data meta)) ''data'')
            ''consultationPortalCaseById'') ''id'')"
    and "postGraphQL net GET_CASE_ADVICES_MINIMAL (case_input cid) ''CaseAdvices'' w1
            = (Inr adv, w2)"
    and "success adv"
    and "opt_member (opt_member (Some (data adv)) ''data'')
            ''consultationPortalAdviceByCaseId'' = Some (JArray items)"
    and "\<forall>a\<in>set items. a \<noteq> JNull"
  shows "fetchCaseComments net ident w = (Inr (map (comment_of cid) items), w2)
    \<and> (\<forall>a. caseId (comment_of cid a) = cid
          \<and> attachments (comment_of cid a) = []
          \<and> (member a ''participantName'' = None \<or> member a ''participantName'' = Some JNull
               \<longrightarrow> contact (comment_of cid a) = JString [])
          \<and> (member a ''content'' = None \<or> member a ''content'' = Some JNull
               \<or> member a ''content'' = Some (JString [])
               \<longrightarrow> comment (comment_of cid a) = JString no_comment_placeholder))"
proof (intro conjI allI impI)
  have m: "map_items cid items = Inr (map (comment_of cid) items)"
    using assms(8) by (rule map_items_records)
  show "fetchCaseComments net ident w = (Inr (map (comment_of cid) items), w2)"
    by (cases "items = []") (simp_all add: fetchCaseComments_def assms(1-7) m)
next
  fix a
  show "caseId (comment_of cid a) = cid" by (simp add: comment_of_def)
  show "attachments (comment_of cid a) = []" by (simp add: comment_of_def)
  show "contact (comment_of cid a) = JString []"
    if "member a ''participantName'' = None \<or> member a ''participantName'' = Some JNull"
    using that by (auto simp add: comment_of_def)
  show "comment (comment_of cid a) = JString no_comment_placeholder"
    if "member a ''content'' = None \<or> member a ''content'' = Some JNull
        \<or> member a ''content'' = Some (JString [])"
    using that by (auto simp add: comment_of_def or_else_def)
qed

theorem records_are_mapped_to_comments_witness:
  "fst (fetchCaseComments
          (scripted [Resolves (json_response 200 case_found),
                     Resolves (json_response 200 two_advices)]) ''42'' empty_world)
   = Inr [\<lparr>id' = Some (JNumber 1), caseId = Finite 42, contact = JString [],
            comment = JString ''Engin athugasemd fylgdi.'',
            created = Some (JString ''2024-01-01''), attachments = []\<rparr>,
          \<lparr>id' = Some (JNumber 2), caseId = Finite 42, contact = JString ''Jon'',
            comment = JString ''Gott'',
            created = Some (JString ''2024-02-01''), attachments = []\<rparr>]"
proof -
  let ?Z = "scripted [Resolves (json_response 200 case_found),
                      Resolves (json_response 200 two_advices)]"
  let ?q1 = "graphql_request GET_CASE_META (case_input (Finite 42)) ''CaseMeta''"
  let ?q2 = "graphql_request GET_CASE_ADVICES_MINIMAL (case_input (Finite 42)) ''CaseAdvices''"
  let ?wa = "empty_world\<lparr>requests := requests empty_world @ [?q1],
               reads := reads empty_world @ [ReadJson]\<rparr>"
  let ?wb = "?wa\<lparr>requests := requests ?wa @ [?q2], reads := reads ?wa @ [ReadJson]\<rparr>"
  have ew: "requests empty_world = []" by (simp add: empty_world_def)
  note h1 = parseInt_42
  have h2: "postGraphQL ?Z GET_CASE_META (case_input (Finite 42)) ''CaseMeta'' empty_world
      = (Inr \<lparr>success = True, data = case_found, status = 200, error = None\<rparr>, ?wa)"
    using postGraphQL_on_success
      [of ?Z empty_world GET_CASE_META "case_input (Finite 42)" "''CaseMeta''"
        "json_response 200 case_found" case_found]
    by (simp add: scripted_def ew json_response_def ok_def)
  have h5: "postGraphQL ?Z GET_CASE_ADVICES_MINIMAL (case_input (Finite 42)) ''CaseAdvices'' ?wa
      = (Inr \<lparr>success = True, data = two_advices, status = 200, error = None\<rparr>, ?wb)"
    using postGraphQL_on_success
      [of ?Z ?wa GET_CASE_ADVICES_MINIMAL "case_input (Finite 42)" "''CaseAdvices''"
        "json_response 200 two_advices" two_advices]
    by (simp add: scripted_def ew json_response_def ok_def)
  have h4: "truthy (opt_member (opt_member (opt_member
      (Some (data \<lparr>success = True, data = case_found, status = 200, error = None\<rparr>))
        ''data'') ''consultationPortalCaseById'') ''id'')"
    by (simp add: case_found_def)
  have h7: "opt_member (opt_member
      (Some (data \<lparr>success = True, data = two_advices, status = 200, error = None\<rparr>))
        ''data'') ''consultationPortalAdviceByCaseId'' = Some (JArray [advice_bare, advice_full])"
    by (simp add: two_advices_def)
  have h8: "\<forall>a\<in>set [advice_bare, advice_full]. a \<noteq> JNull"
    by (simp add: advice_bare_def advice_full_def)
  have "fetchCaseComments ?Z ''42'' empty_world
      = (Inr (map (comment_of (Finite 42)) [advice_bare, advice_full]), ?wb)"
    using records_are_mapped_to_comments [OF h1 h2 _ h4 h5 _ h7 h8] by simp
  then show ?thesis
    by (simp add: comment_of_def advice_bare_def advice_full_def or_else_def
        no_comment_placeholder_def)
qed

lemma opt_member_Some: "opt_member (Some v) k = member v k"
  by (cases v) simp_all

text \<open>
  Claim C1, as the code has it. The \<^verbatim>\<open>errors\<close> member of a GraphQL envelope is never
  read. When a success outcome (a response with an ok status, such as 200) carries an
  envelope with a populated \<^verbatim>\<open>errors\<close> array and \<^verbatim>\<open>data\<close> absent or \<^verbatim>\<open>null\<close>,
  \<^verbatim>\<open>fetchCaseComments\<close> raises nothing and returns the empty sequence: for the
  existence check after that one request, without the comments query; for the comments
  query (the existence check having found the case) after the two requests.
\<close>

theorem errors_envelope_reads_as_empty:
  assumes "parseInt ident = Some cid"
    and "member envelope ''errors'' = Some (JArray errs)" and "errs \<noteq> []"
    and "member envelope ''data'' = None \<or> member envelope ''data'' = Some JNull"
  shows "(postGraphQL net GET_CASE_META (case_input cid) ''CaseMeta'' w = (Inr meta, w1)
           \<and> success meta \<and> data meta = envelope
          \<longrightarrow> fetchCaseComments net ident w = (Inr [], w1)
              \<and> requests w1
                  = requests w @ [graphql_request GET_CASE_META (case_input cid) ''CaseMeta''])
    \<and> (postGraphQL net GET_CASE_META (case_input cid) ''CaseMeta'' w = (Inr meta, w1)
           \<and> success meta
           \<and> truthy (opt_member (opt_member (opt_member (Some (data meta)) ''data'')
                ''consultationPortalCaseById'') ''id'')
           \<and> postGraphQL net GET_CASE_ADVICES_MINIMAL (case_input cid) ''CaseAdvices'' w1
                = (Inr adv, w2)
           \<and> success adv \<and> data adv = envelope
          \<longrightarrow> fetchCaseComments net ident w = (Inr [], w2))"
proof (intro conjI impI)
  have d: "opt_member (opt_member (Some envelope) ''data'') k = None" for k
    using assms(4) by (auto simp add: opt_member_Some)
  {
    assume a: "postGraphQL net GET_CASE_META (case_input cid) ''CaseMeta'' w = (Inr meta, w1)
           \<and> success meta \<and> data meta = envelope"
    then show "fetchCaseComments net ident w = (Inr [], w1)"
      by (simp add: fetchCaseComments_def assms(1) d)
    from a show "requests w1
        = requests w @ [graphql_request GET_CASE_META (case_input cid) ''CaseMeta'']"
      using postGraphQL_requests [of net GET_CASE_META "case_input cid" "''CaseMeta''" w]
      by simp
  }
  assume "postGraphQL net GET_CASE_META (case_input cid) ''CaseMeta'' w = (Inr meta, w1)
           \<and> success meta
           \<and> truthy (opt_member (opt_member (opt_member (Some (data meta)) ''data'')
                ''consultationPortalCaseById'') ''id'')
           \<and> postGraphQL net GET_CASE_ADVICES_MINIMAL (case_input cid) ''CaseAdvices'' w1
                = (Inr adv, w2)
           \<and> success adv \<and> data adv = envelope"
  then show "fetchCaseComments net ident w = (Inr [], w2)"
    by (simp add: fetchCaseComments_def assms(1) d)
qed

theorem errors_envelope_reads_as_empty_witness:
  "fst (fetchCaseComments (scripted [Resolves (json_response 200 errors_only)]) ''42''
          empty_world) = Inr []
   \<and> requests (snd (fetchCaseComments (scripted [Resolves (json_response 200 errors_only)])
          ''42'' empty_world))
       = [graphql_request GET_CASE_META (case_input (Finite 42)) ''CaseMeta'']
   \<and> fst (fetchCaseComments
          (scripted [Resolves (json_response 200 case_found),
                     Resolves (json_response 200 errors_only)]) ''42'' empty_world)
       = Inr []"
proof -
  let ?A = "scripted [Resolves (json_response 200 errors_only)]"
  let ?B = "scripted [Resolves (json_response 200 case_found),
                      Resolves (json_response 200 errors_only)]"
  let ?q1 = "graphql_request GET_CASE_META (case_input (Finite 42)) ''CaseMeta''"
  let ?q2 = "graphql_request GET_CASE_ADVICES_MINIMAL (case_input (Finite 42)) ''CaseAdvices''"
  let ?wa = "empty_world\<lparr>requests := requests empty_world @ [?q1],
               reads := reads empty_world @ [ReadJson]\<rparr>"
  let ?wb = "?wa\<lparr>requests := requests ?wa @ [?q2], reads := reads ?wa @ [ReadJson]\<rparr>"
  let ?errs = "[JObject [(''message'', JString ''Case not found''),
                         (''extensions'', JObject [(''code'', JString ''NOT_FOUND'')])]]"
  have ew: "requests empty_world = []" by (simp add: empty_world_def)
  note h1 = parseInt_42
  have h2: "member errors_only ''errors'' = Some (JArray ?errs)"
    by (simp add: errors_only_def)
  have h3: "?errs \<noteq> []" by simp
  have h4: "member errors_only ''data'' = None \<or> member errors_only ''data'' = Some JNull"
    by (simp add: errors_only_def)
  have pa: "postGraphQL ?A GET_CASE_META (case_input (Finite 42)) ''CaseMeta'' empty_world
      = (Inr \<lparr>success = True, data = errors_only, status = 200, error = None\<rparr>, ?wa)"
    using postGraphQL_on_success
      [of ?A empty_world GET_CASE_META "case_input (Finite 42)" "''CaseMeta''"
        "json_response 200 errors_only" errors_only]
    by (simp add: scripted_def ew json_response_def ok_def)
  have pb1: "postGraphQL ?B GET_CASE_META (case_input (Finite 42)) ''CaseMeta'' empty_world
      = (Inr \<lparr>success = True, data = case_found, status = 200, error = None\<rparr>, ?wa)"
    using postGraphQL_on_success
      [of ?B empty_world GET_CASE_META "case_input (Finite 42)" "''CaseMeta''"
        "json_response 200 case_found" case_found]
    by (simp add: scripted_def ew json_response_def ok_def)
  have pb2: "postGraphQL ?B GET_CASE_ADVICES_MINIMAL (case_input (Finite 42)) ''CaseAdvices'' ?wa
      = (Inr \<lparr>success = True, data = errors_only, status = 200, error = None\<rparr>, ?wb)"
    using postGraphQL_on_success
      [of ?B ?wa GET_CASE_ADVICES_MINIMAL "case_input (Finite 42)" "''CaseAdvices''"
        "json_response 200 errors_only" errors_only]
    by (simp add: scripted_def ew json_response_def ok_def)
  have b3: "truthy (opt_member (opt_member (opt_member (Some case_found) ''data'')
              ''consultationPortalCaseById'') ''id'')"
    by (simp add: case_found_def)
  note ta = errors_envelope_reads_as_empty
    [where net = "?A" and w = empty_world and ?w1.0 = "?wa"
      and meta = "\<lparr>success = True, data = errors_only, status = 200, error = None\<rparr>",
      OF h1 h2 h3 h4, THEN conjunct1]
  note tb = errors_envelope_reads_as_empty
    [where net = "?B" and w = empty_world and ?w1.0 = "?wa" and ?w2.0 = "?wb"
      and meta = "\<lparr>success = True, data = case_found, status = 200, error = None\<rparr>"
      and adv = "\<lparr>success = True, data = errors_only, status = 200, error = None\<rparr>",
      OF h1 h2 h3 h4, THEN conjunct2]
  have a: "fetchCaseComments ?A ''42'' empty_world = (Inr [], ?wa)
      \<and> requests ?wa = requests empty_world @ [?q1]"
    using ta pa by simp
  have b: "fetchCaseComments ?B ''42'' empty_world = (Inr [], ?wb)"
    using tb pb1 pb2 b3 by simp
  from a b show ?thesis by (simp add: ew)
qed

text \<open>
  Claim C1 as stated fails: a response with status 200 whose envelope is
  \<^verbatim>\<open>{"errors":[...]}\<close>, with no \<^verbatim>\<open>data\<close>, answers the existence check, and
  \<^verbatim>\<open>fetchCaseComments("42")\<close> returns the empty sequence instead of raising.
\<close>

theorem errors_envelope_is_not_a_failure:
  "fst (fetchCaseComments (scripted [Resolves (json_response 200 errors_only)]) ''42''
          empty_world) = Inr []"
proof -
  let ?A = "scripted [Resolves (json_response 200 errors_only)]"
  let ?q1 = "graphql_request GET_CASE_META (case_input (Finite 42)) ''CaseMeta''"
  let ?wa = "empty_world\<lparr>requests := requests empty_world @ [?q1],
               reads := reads empty_world @ [ReadJson]\<rparr>"
  have ew: "requests empty_world = []" by (simp add: empty_world_def)
  note h1 = parseInt_42
  have pa: "postGraphQL ?A GET_CASE_META (case_input (Finite 42)) ''CaseMeta'' empty_world
      = (Inr \<lparr>success = True, data = errors_only, status = 200, error = None\<rparr>, ?wa)"
    using postGraphQL_on_success
      [of ?A empty_world GET_CASE_META "case_input (Finite 42)" "''CaseMeta''"
        "json_response 200 errors_only" errors_only]
    by (simp add: scripted_def ew json_response_def ok_def)
  have d: "\<not> truthy (opt_member (opt_member (opt_member (Some errors_only) ''data'')
              ''consultationPortalCaseById'') ''id'')"
    by (simp add: errors_only_def)
  show ?thesis
    by (simp add: fetchCaseComments_def h1 pa d)
qed

text \<open>
  Claim C9. When the transport outcome is a success whose payload has no \<^verbatim>\<open>cases\<close>
  member, or has it \<^verbatim>\<open>null\<close> (as in \<^verbatim>\<open>{ cases: null, total: 0 }\<close>), or is itself
  \<^verbatim>\<open>null\<close>, \<^verbatim>\<open>searchCases\<close> returns the empty array and raises nothing. When the
  transport outcome is a failure, it raises the error with the case-list message.
\<close>

theorem searchCases_empty_or_error:
  "(get net apiClient ''/api/cases''
        [(''pageSize'', PString ''1500''), (''orderBy'', PString ''LastUpdated'')] w
      = (Inr res, w')
     \<and> success res
     \<and> (opt_member (Some (data res)) ''cases'' = None
          \<or> opt_member (Some (data res)) ''cases'' = Some JNull)
    \<longrightarrow> searchCases net w = (Inr (JArray []), w'))
   \<and> (get net apiClient ''/api/cases''
        [(''pageSize'', PString ''1500''), (''orderBy'', PString ''LastUpdated'')] w
      = (Inr res, w')
     \<and> \<not> success res
    \<longrightarrow> searchCases net w = (Inl (Error case_list_error), w'))"
proof (intro conjI impI)
  assume "get net apiClient ''/api/cases''
        [(''pageSize'', PString ''1500''), (''orderBy'', PString ''LastUpdated'')] w
      = (Inr res, w')
     \<and> success res
     \<and> (opt_member (Some (data res)) ''cases'' = None
          \<or> opt_member (Some (data res)) ''cases'' = Some JNull)"
  then show "searchCases net w = (Inr (JArray []), w')"
    by (auto simp add: searchCases_def or_else_def)
next
  assume "get net apiClient ''/api/cases''
        [(''pageSize'', PString ''1500''), (''orderBy'', PString ''LastUpdated'')] w
      = (Inr res, w')
     \<and> \<not> success res"
  then show "searchCases net w = (Inl (Error case_list_error), w')"
    by (simp add: searchCases_def)
qed

theorem searchCases_empty_or_error_witness:
  "fst (searchCases (scripted [Resolves (json_response 200 cases_null)]) empty_world)
     = Inr (JArray [])
   \<and> fst (searchCases (scripted [Resolves (text_response 500 ''Internal Server Error'')])
        empty_world)
     = Inl (Error case_list_error)"
proof -
  let ?S = "scripted [Resolves (json_response 200 cases_null)]"
  let ?F = "scripted [Resolves (text_response 500 ''Internal Server Error'')]"
  let ?params = "[(''pageSize'', PString ''1500''), (''orderBy'', PString ''LastUpdated'')]"
  let ?q = "get_request (get_url apiClient ''/api/cases'' ?params)"
  let ?ws = "empty_world\<lparr>requests := requests empty_world @ [?q],
               reads := reads empty_world @ [ReadJson]\<rparr>"
  let ?wf = "console_error
        [LogString (''HTTP error! status: ''
           @ show_nat (response_status (text_response 500 ''Internal Server Error''))
           @ '', endpoint: '' @ ''/api/cases'' @ '', body: '' @ ''Internal Server Error'')]
        (empty_world\<lparr>requests := requests empty_world @ [?q],
           reads := reads empty_world @ [ReadText]\<rparr>)"
  have ew: "requests empty_world = []" by (simp add: empty_world_def)
  have gs: "get ?S apiClient ''/api/cases'' ?params empty_world
      = (Inr \<lparr>success = True, data = cases_null, status = 200, error = None\<rparr>, ?ws)"
    using get_on_success
      [of ?S empty_world apiClient "''/api/cases''" ?params "json_response 200 cases_null"
        cases_null]
    by (simp add: scripted_def ew json_response_def ok_def)
  have gf: "get ?F apiClient ''/api/cases'' ?params empty_world
      = (Inr (http_failure 500 ''Internal Server Error''), ?wf)"
    using get_on_http_failure
      [of ?F empty_world apiClient "''/api/cases''" ?params
        "text_response 500 ''Internal Server Error''" "''Internal Server Error''"]
    by (simp add: scripted_def ew text_response_def ok_def)
  have c: "opt_member (Some cases_null) ''cases'' = Some JNull"
    by (simp add: cases_null_def)
  note ts = searchCases_empty_or_error
    [where net = "?S" and w = empty_world and w' = "?ws"
      and res = "\<lparr>success = True, data = cases_null, status = 200, error = None\<rparr>",
      THEN conjunct1]
  note tf = searchCases_empty_or_error
    [where net = "?F" and w = empty_world and w' = "?wf"
      and res = "http_failure 500 ''Internal Server Error''", THEN conjunct2]
  have s: "searchCases ?S empty_world = (Inr (JArray []), ?ws)"
    using ts gs c by simp
  have f: "searchCases ?F empty_world = (Inl (Error case_list_error), ?wf)"
    using tf gf by simp
  from s f show ?thesis by simp
qed

end
